theory Spec2Isabelle
  imports Complex_Main "HOL-Library.Sublist"
begin

section \<open>Data model\<close>

text \<open>
  Values that travel through the two services are JSON documents: request bodies, the
  forwarded payload, response envelopes, and the values of span and metric attributes.
  A Python \<open>dict\<close> is kept as an association list in insertion order.
\<close>

datatype json =
    JNull
  | JBool bool
  | JInt int
  | JFloat real
  | JStr string
  | JList "json list"
  | JObj "(string \<times> json) list"

type_synonym dict = "(string \<times> json) list"

text \<open>\<open>d.get(k, default)\<close> of Python.\<close>

definition dict_get :: "dict \<Rightarrow> string \<Rightarrow> json \<Rightarrow> json" where
  "dict_get d k dflt = (case map_of d k of None \<Rightarrow> dflt | Some v \<Rightarrow> v)"

text \<open>The value of a field of a JSON object.\<close>

fun json_field :: "json \<Rightarrow> string \<Rightarrow> json option" where
  "json_field (JObj d) k = map_of d k"
| "json_field v k = None"

text \<open>\<open>x or default\<close> of Python on an optional string and on an optional integer.\<close>

definition or_str :: "string option \<Rightarrow> string \<Rightarrow> string" where
  "or_str x dflt = (case x of None \<Rightarrow> dflt | Some s \<Rightarrow> if s = [] then dflt else s)"

definition or_int :: "int option \<Rightarrow> int \<Rightarrow> int" where
  "or_int x dflt = (case x of None \<Rightarrow> dflt | Some n \<Rightarrow> if n = 0 then dflt else n)"

text \<open>
  The exceptions the handlers distinguish. \<open>HTTPException status detail\<close> is FastAPI's;
  \<open>HTTPError\<close> is \<open>httpx.HTTPError\<close> with all its subclasses (connection refused, timeout,
  \<open>HTTPStatusError\<close>) and carries \<open>str(e)\<close>; \<open>ValueError\<close> includes
  \<open>json.JSONDecodeError\<close>; \<open>OtherException\<close> is any other \<open>Exception\<close>.
\<close>

datatype exn =
    HTTPException int string
  | HTTPError string
  | ValueError string
  | OtherException string

datatype span_status_code = UNSET | OK | ERROR

datatype span_kind = INTERNAL | SERVER | CLIENT

text \<open>
  \<open>CurrentSpan\<close> is the span returned by \<open>trace.get_current_span()\<close> in a handler, the
  server span opened by the FastAPI instrumentation; \<open>Span name\<close> is a span opened by
  \<open>tracer.start_as_current_span(name, ...)\<close>.
\<close>

datatype span_ref = CurrentSpan | Span string

datatype log_level = DEBUG | INFO | LOG_ERROR

datatype instrument =
    http_server_request_duration
  | http_server_active_requests
  | http_server_request_body_size
  | http_server_response_body_size
  | http_client_request_duration
  | http_client_active_requests
  | http_client_request_body_size
  | http_client_response_body_size
  | requests_total
  | request_duration
  | errors_total
  | processing_time

text \<open>
  Every effect of a handler or of the middleware is one event, in program order:
  the calls on spans, the entry and exit of a \<open>with tracer.start_as_current_span\<close> block
  (the exit carries the exception that escapes the block, if any), log calls, sleeps,
  \<open>random.random()\<close>, \<open>add\<close> on a counter, \<open>record\<close> on a histogram, \<open>random.randint\<close>,
  \<open>json.dumps\<close> and the outbound \<open>client.post(url, json=payload)\<close> with the client's timeout.
\<close>

datatype event =
    SetAttribute span_ref string json
  | SetStatus span_ref span_status_code "string option"
  | RecordException span_ref exn
  | StartSpan string span_kind
  | EndSpan string "exn option"
  | Log log_level string
  | Sleep real
  | RandomDraw
  | Add instrument int dict
  | Record instrument real dict
  | RandInt int int
  | JsonDumps json
  | Post string json real

text \<open>The module-level configuration read from the environment.\<close>

record config =
  SERVICE_NAME :: string
  TENANT_ID :: string
  RECEIVER_SERVICE_URL :: string
  ERROR_RATE :: real
  LATENCY_MS :: int
  PROCESSING_TIME_MS :: int

section \<open>Telemetry middleware\<close>

text \<open>
  The parts of a Starlette request and response that \<open>dispatch\<close> reads. Reading
  \<open>request.url.hostname\<close> or \<open>request.url.port\<close> splits the URL built from the \<open>Host\<close>
  header and raises \<open>ValueError\<close> when that header is malformed (a port out of range
  or not a number, an unclosed bracket): \<open>Inl\<close> with the exception's text.
\<close>

record request =
  url_hostname :: "string + string option"
  url_port :: "string + int option"
  url_scheme :: string
  http_method :: string
  url_path :: string
  content_length :: "string option"

text \<open>
  \<open>body\<close> and \<open>content\<close> are \<open>None\<close> when the response object has no such attribute.
\<close>

record response =
  status_code :: int
  body :: "string option"
  content :: "string option"

text \<open>
  \<open>request.url.hostname or SERVICE_NAME\<close> and \<open>request.url.port or 8000\<close>, from the values
  read.
\<close>

definition server_address :: "config \<Rightarrow> string option \<Rightarrow> string" where
  "server_address cfg hostname = or_str hostname (SERVICE_NAME cfg)"

definition server_port :: "int option \<Rightarrow> int" where
  "server_port port = or_int port 8000"

text \<open>The attribute dictionary passed to both \<open>http_server_active_requests.add\<close> calls.\<close>

definition active_request_attributes ::
  "config \<Rightarrow> request \<Rightarrow> string option \<Rightarrow> int option \<Rightarrow> dict"
where
  "active_request_attributes cfg req hostname port =
     [(''server.address'', JStr (server_address cfg hostname)),
      (''server.port'', JInt (server_port port)),
      (''http.request.method'', JStr (http_method req)),
      (''url.scheme'', JStr (url_scheme req)),
      (''http.route'', JStr (url_path req))]"

definition duration_attributes ::
  "config \<Rightarrow> request \<Rightarrow> string option \<Rightarrow> int option \<Rightarrow> int \<Rightarrow> dict"
where
  "duration_attributes cfg req hostname port status =
     [(''http.request.method'', JStr (http_method req)),
      (''http.response.status_code'', JInt status),
      (''server.address'', JStr (server_address cfg hostname)),
      (''server.port'', JInt (server_port port)),
      (''url.scheme'', JStr (url_scheme req)),
      (''http.route'', JStr (url_path req))]"

text \<open>
  \<open>request_body_size\<close>: the \<open>content-length\<close> header, when present and not empty, read by
  Python's \<open>int\<close>, which is the parameter \<open>py_int\<close> (\<open>None\<close> for \<open>ValueError\<close>).
\<close>

definition request_body_size :: "(string \<Rightarrow> int option) \<Rightarrow> request \<Rightarrow> int option" where
  "request_body_size py_int req =
     (case content_length req of
        None \<Rightarrow> None
      | Some s \<Rightarrow> if s = [] then None else py_int s)"

definition response_body_size :: "response \<Rightarrow> int option" where
  "response_body_size resp =
     (case body resp of
        Some b \<Rightarrow>
          if b \<noteq> [] then Some (int (length b))
          else (case content resp of
                  Some c \<Rightarrow> if c \<noteq> [] then Some (int (length c)) else None
                | None \<Rightarrow> None)
      | None \<Rightarrow>
          (case content resp of
             Some c \<Rightarrow> if c \<noteq> [] then Some (int (length c)) else None
           | None \<Rightarrow> None))"

text \<open>
  The status code the \<open>try\<close> statement of \<open>dispatch\<close> leaves in \<open>status_code\<close>: the
  response's when \<open>call_next\<close> returns, \<open>e.status_code\<close> for an \<open>HTTPException\<close>, 500 for
  any other exception.
\<close>

fun captured_status :: "exn + response \<Rightarrow> int" where
  "captured_status (Inr resp) = status_code resp"
| "captured_status (Inl (HTTPException c d)) = c"
| "captured_status (Inl e) = 500"

fun captured_response_size :: "exn + response \<Rightarrow> int option" where
  "captured_response_size (Inr resp) = response_body_size resp"
| "captured_response_size (Inl e) = None"

text \<open>A body-size histogram is recorded only for a known, positive size.\<close>

definition size_record :: "instrument \<Rightarrow> int option \<Rightarrow> dict \<Rightarrow> event list" where
  "size_record i sz attrs =
     (case sz of
        None \<Rightarrow> []
      | Some n \<Rightarrow> if n > 0 then [Record i (of_int n) attrs] else [])"

text \<open>
  The increment before the \<open>try\<close>, and the \<open>finally\<close> block, with the hostname and port
  read from the URL.
\<close>

definition dispatch_entry ::
  "config \<Rightarrow> request \<Rightarrow> string option \<Rightarrow> int option \<Rightarrow> event list"
where
  "dispatch_entry cfg req hostname port =
     [Add http_server_active_requests 1 (active_request_attributes cfg req hostname port)]"

definition dispatch_finally ::
  "config \<Rightarrow> (string \<Rightarrow> int option) \<Rightarrow> real \<Rightarrow> real \<Rightarrow> request
     \<Rightarrow> string option \<Rightarrow> int option \<Rightarrow> exn + response \<Rightarrow> event list"
where
  "dispatch_finally cfg py_int start_time end_time req hostname port outcome =
     (let duration = end_time - start_time;
          attributes = duration_attributes cfg req hostname port (captured_status outcome)
      in [Add http_server_active_requests (- 1)
            (active_request_attributes cfg req hostname port),
          Record http_server_request_duration duration attributes]
         @ size_record http_server_request_body_size (request_body_size py_int req) attributes
         @ size_record http_server_response_body_size (captured_response_size outcome) attributes)"

text \<open>
  \<open>HTTPServerMetricsMiddleware.dispatch\<close>. The hostname and the port are read first, before
  the increment and outside the \<open>try\<close>: when either read raises, the \<open>ValueError\<close> leaves
  \<open>dispatch\<close> with no measurement made and \<open>call_next\<close> not called. Otherwise
  \<open>call_next\<close> is given by what the wrapped handler does: its events and its outcome (a
  response, or the exception it raises), which passes through unchanged. \<open>start_time\<close>
  and \<open>end_time\<close> are the two readings of \<open>time.time()\<close>.
\<close>

definition dispatch ::
  "config \<Rightarrow> (string \<Rightarrow> int option) \<Rightarrow> real \<Rightarrow> real \<Rightarrow> request
     \<Rightarrow> event list \<times> (exn + response) \<Rightarrow> event list \<times> (exn + response)"
where
  "dispatch cfg py_int start_time end_time req call_next =
     (case url_hostname req of
        Inl msg \<Rightarrow> ([], Inl (ValueError msg))
      | Inr hostname \<Rightarrow>
          (case url_port req of
             Inl msg \<Rightarrow> ([], Inl (ValueError msg))
           | Inr port \<Rightarrow>
               (dispatch_entry cfg req hostname port @ fst call_next
                  @ dispatch_finally cfg py_int start_time end_time req hostname port
                      (snd call_next),
                snd call_next)))"

section \<open>What a request reads from outside\<close>

text \<open>
  \<open>urlparse(RECEIVER_SERVICE_URL)\<close>: reading \<open>.port\<close> raises \<open>ValueError\<close> for a port that
  is not a number in range, which is \<open>Inl\<close> with the exception's text.
\<close>

record parsed_url =
  pu_hostname :: "string option"
  pu_port :: "string + int option"
  pu_scheme :: string

text \<open>
  The \<open>httpx\<close> response: \<open>hx_status_error\<close> is the text of the \<open>HTTPStatusError\<close> that
  \<open>raise_for_status()\<close> builds for it, \<open>hx_json\<close> what \<open>response.json()\<close> does: the decoded
  value, or \<open>Inl\<close> with the exception it raises, a \<open>ValueError\<close> (which includes
  \<open>JSONDecodeError\<close> and \<open>UnicodeDecodeError\<close>) or another one, such as the
  \<open>RecursionError\<close> of \<open>json.loads\<close> on a deeply nested body.
\<close>

record httpx_response =
  hx_status_code :: int
  hx_content :: string
  hx_status_error :: string
  hx_json :: "exn + json"

text \<open>
  Everything a handler reads that is neither its argument nor the configuration:
  whether \<open>trace.get_current_span()\<close> is truthy, the value of \<open>random.random()\<close>, the
  parsed receiver URL, the length of \<open>json.dumps(payload).encode('utf-8')\<close>, what
  \<open>client.post\<close> does (the exception it raises, or the response), the readings of
  \<open>time.time()\<close>, the value of \<open>random.randint(1, 10)\<close>, and the exception, if any,
  raised while the simulated database call is awaited.
\<close>

record env =
  current_span :: bool
  random_draw :: real
  receiver_url :: parsed_url
  json_dumps_size :: "json \<Rightarrow> nat"
  post_result :: "exn + httpx_response"
  start_time :: real
  end_time :: real
  later_time :: real
  client_start_time :: real
  client_end_time :: real
  randint :: int
  db_fault :: "exn option"

text \<open>Decimal digits, for \<open>str\<close> of an integer.\<close>

fun digits :: "nat \<Rightarrow> string" where
  "digits n =
     (if n < 10 then [char_of (48 + n)]
      else digits (n div 10) @ [char_of (48 + n mod 10)])"

declare digits.simps [simp del]

definition str_int :: "int \<Rightarrow> string" where
  "str_int i = (if i < 0 then CHR ''-'' # digits (nat (- i)) else digits (nat i))"

text \<open>
  \<open>str(e)\<close>: the text an exception carries; for an \<open>HTTPException\<close>, Starlette's
  \<open>"{status_code}: {detail}"\<close>.
\<close>

fun exn_str :: "exn \<Rightarrow> string" where
  "exn_str (HTTPException c d) = str_int c @ '': '' @ d"
| "exn_str (HTTPError m) = m"
| "exn_str (ValueError m) = m"
| "exn_str (OtherException m) = m"

text \<open>The body of an \<open>if current_span:\<close> statement.\<close>

definition on_current_span :: "env \<Rightarrow> event list \<Rightarrow> event list" where
  "on_current_span env evs = (if current_span env then evs else [])"

text \<open>The artificial latency block, the same in both services and both variants.\<close>

definition latency_events :: "config \<Rightarrow> event list" where
  "latency_events cfg =
     (if LATENCY_MS cfg > 0 then
        [StartSpan ''artificial_latency'' INTERNAL,
         SetAttribute (Span ''artificial_latency'') ''app.latency.ms'' (JInt (LATENCY_MS cfg)),
         Sleep (real_of_int (LATENCY_MS cfg) / 1000),
         EndSpan ''artificial_latency'' None]
      else [])"

text \<open>
  The exception that leaves a \<open>with\<close> block or a handler, if any, from its outcome.
\<close>

definition escaped :: "exn + 'a \<Rightarrow> exn option" where
  "escaped r = (case r of Inl e \<Rightarrow> Some e | Inr v \<Rightarrow> None)"

section \<open>Sender: \<open>POST /send\<close>\<close>

text \<open>\<open>data.get("request_id", "unknown") if data else "unknown"\<close>\<close>

definition request_id_of :: "dict option \<Rightarrow> json" where
  "request_id_of data =
     (case data of
        None \<Rightarrow> JStr ''unknown''
      | Some d \<Rightarrow> if d = [] then JStr ''unknown'' else dict_get d ''request_id'' (JStr ''unknown''))"

text \<open>\<open>data or {}\<close>\<close>

definition data_or_empty :: "dict option \<Rightarrow> json" where
  "data_or_empty data = (case data of None \<Rightarrow> JObj [] | Some d \<Rightarrow> if d = [] then JObj [] else JObj d)"

definition payload :: "config \<Rightarrow> json \<Rightarrow> dict option \<Rightarrow> json" where
  "payload cfg request_id data =
     JObj [(''request_id'', request_id),
           (''tenant_id'', JStr (TENANT_ID cfg)),
           (''sender'', JStr (SERVICE_NAME cfg)),
           (''data'', data_or_empty data)]"

text \<open>\<open>httpx\<close>: a response is a success when its status is 2xx.\<close>

definition is_success :: "int \<Rightarrow> bool" where
  "is_success c = (200 \<le> c \<and> c \<le> 299)"

definition client_active_attributes :: "env \<Rightarrow> int option \<Rightarrow> dict" where
  "client_active_attributes env port =
     [(''server.address'', JStr (or_str (pu_hostname (receiver_url env)) ''receiver-service'')),
      (''server.port'', JInt (or_int port 8000)),
      (''http.request.method'', JStr ''POST''),
      (''url.scheme'', JStr (or_str (Some (pu_scheme (receiver_url env))) ''http'')),
      (''http.route'', JStr ''/process'')]"

definition client_attributes :: "env \<Rightarrow> int option \<Rightarrow> int \<Rightarrow> dict" where
  "client_attributes env port status =
     [(''http.request.method'', JStr ''POST''),
      (''http.response.status_code'', JInt status),
      (''server.address'', JStr (or_str (pu_hostname (receiver_url env)) ''receiver-service'')),
      (''server.port'', JInt (or_int port 8000)),
      (''url.scheme'', JStr (or_str (Some (pu_scheme (receiver_url env))) ''http'')),
      (''http.route'', JStr ''/process'')]"

definition invalid_json_message :: "string \<Rightarrow> string" where
  "invalid_json_message msg = ''Invalid JSON response from receiver: '' @ msg"

text \<open>The \<open>except (json.JSONDecodeError, ValueError)\<close> block, up to its \<open>raise\<close>.\<close>

definition json_error_events :: "string \<Rightarrow> event list" where
  "json_error_events msg =
     [RecordException (Span ''call_receiver'') (ValueError msg),
      SetStatus (Span ''call_receiver'') ERROR (Some (invalid_json_message msg)),
      SetAttribute (Span ''call_receiver'') ''error.type'' (JStr ''json_decode_error''),
      SetAttribute (Span ''call_receiver'') ''error.message'' (JStr (invalid_json_message msg)),
      Log LOG_ERROR ''Failed to parse JSON response from receiver'']"

text \<open>
  The \<open>try\<close> statement around \<open>response.json()\<close>: its \<open>except\<close> clause catches a
  \<open>ValueError\<close> and raises \<open>HTTPException(502)\<close>; any other exception passes.
\<close>

fun json_except :: "exn \<Rightarrow> event list \<times> exn" where
  "json_except (ValueError msg) =
     (json_error_events msg, HTTPException 502 (invalid_json_message msg))"
| "json_except e = ([], e)"

text \<open>
  The inner \<open>try\<close> body of \<open>send_message\<close>: the payload, its size estimate, the call with
  the client's timeout of 10, \<open>raise_for_status()\<close>, \<open>response.json()\<close>. It yields the
  events, the outcome (an exception in flight, or the response with its decoded body),
  and the values left in \<open>response_body_size\<close> and \<open>client_status_code\<close> for the
  \<open>finally\<close> block.
\<close>

definition client_call ::
  "config \<Rightarrow> env \<Rightarrow> dict option \<Rightarrow> json
     \<Rightarrow> event list \<times> (exn + httpx_response \<times> json) \<times> int option \<times> int"
where
  "client_call cfg env data request_id =
     (let sent = [JsonDumps (payload cfg request_id data),
                  Post (RECEIVER_SERVICE_URL cfg @ ''/process'') (payload cfg request_id data) 10]
      in case post_result env of
           Inl e \<Rightarrow> (sent, Inl e, None, 500)
         | Inr resp \<Rightarrow>
             (let sz = Some (int (length (hx_content resp)));
                  code = hx_status_code resp
              in if \<not> is_success code then
                   (sent, Inl (HTTPError (hx_status_error resp)), sz, code)
                 else (case hx_json resp of
                         Inl e \<Rightarrow>
                           (sent @ fst (json_except e), Inl (snd (json_except e)), sz, code)
                       | Inr result \<Rightarrow> (sent, Inr (resp, result), sz, code))))"

text \<open>The \<open>finally\<close> block of the inner \<open>try\<close>.\<close>

definition client_finally ::
  "config \<Rightarrow> env \<Rightarrow> dict option \<Rightarrow> json \<Rightarrow> int option \<Rightarrow> int option \<Rightarrow> int \<Rightarrow> event list"
where
  "client_finally cfg env data request_id port response_size status =
     (let client_duration = client_end_time env - client_start_time env;
          attrs = client_attributes env port status
      in [Add http_client_active_requests (- 1) (client_active_attributes env port),
          Record http_client_request_duration client_duration attrs]
         @ size_record http_client_request_body_size
             (Some (int (json_dumps_size env (payload cfg request_id data)))) attrs
         @ size_record http_client_response_body_size response_size attrs)"

text \<open>
  The three \<open>except\<close> clauses of the outer \<open>try\<close>: the events of the clause that
  catches the exception, and the exception it raises.
\<close>

fun forward_except :: "exn \<Rightarrow> event list \<times> exn" where
  "forward_except (HTTPError m) =
     ([RecordException (Span ''call_receiver'') (HTTPError m),
       SetStatus (Span ''call_receiver'') ERROR (Some m),
       Log LOG_ERROR ''Failed to forward request to receiver''],
      HTTPException 502 (''Receiver service error: '' @ m))"
| "forward_except (HTTPException c d) = ([], HTTPException c d)"
| "forward_except e =
     ([RecordException (Span ''call_receiver'') e,
       SetStatus (Span ''call_receiver'') ERROR (Some (exn_str e)),
       Log LOG_ERROR ''Unexpected error''],
      HTTPException 500 (''Internal error: '' @ exn_str e))"

text \<open>The success path after the inner \<open>try\<close>.\<close>

definition forward_success :: "config \<Rightarrow> httpx_response \<Rightarrow> json \<Rightarrow> event list \<times> json" where
  "forward_success cfg resp result =
     ([SetAttribute (Span ''call_receiver'') ''app.receiver.response.status''
         (JInt (hx_status_code resp)),
       SetStatus (Span ''call_receiver'') OK None,
       Log INFO ''Successfully forwarded request to receiver''],
      JObj [(''status'', JStr ''success''),
            (''sender'', JStr (SERVICE_NAME cfg)),
            (''tenant'', JStr (TENANT_ID cfg)),
            (''receiver_response'', result)])"

text \<open>The outer \<open>try\<close> statement, inside the \<open>call_receiver\<close> span.\<close>

definition forward :: "config \<Rightarrow> env \<Rightarrow> dict option \<Rightarrow> json \<Rightarrow> event list \<times> (exn + json)" where
  "forward cfg env data request_id =
     (case pu_port (receiver_url env) of
        Inl msg \<Rightarrow>
          (fst (forward_except (ValueError msg)), Inl (snd (forward_except (ValueError msg))))
      | Inr port \<Rightarrow>
          (case client_call cfg env data request_id of
             (evs, outcome, response_size, status) \<Rightarrow>
               (let body_events =
                      [Add http_client_active_requests 1 (client_active_attributes env port)]
                      @ evs
                      @ client_finally cfg env data request_id port response_size status
                in case outcome of
                     Inl e \<Rightarrow>
                       (body_events @ fst (forward_except e), Inl (snd (forward_except e)))
                   | Inr (resp, result) \<Rightarrow>
                       (body_events @ fst (forward_success cfg resp result),
                        Inr (snd (forward_success cfg resp result))))))"

text \<open>The statements of \<open>send_message\<close> up to and including \<open>random.random()\<close>.\<close>

definition send_received :: "config \<Rightarrow> env \<Rightarrow> event list" where
  "send_received cfg env =
     on_current_span env
       [SetAttribute CurrentSpan ''app.endpoint.type'' (JStr ''api''),
        SetAttribute CurrentSpan ''app.tenant.id'' (JStr (TENANT_ID cfg))]
     @ [Log INFO ''Received request to send'']
     @ latency_events cfg
     @ [RandomDraw]"

definition simulated_error_events :: "env \<Rightarrow> event list" where
  "simulated_error_events env =
     on_current_span env
       [SetStatus CurrentSpan ERROR (Some ''Simulated error''),
        SetAttribute CurrentSpan ''error.type'' (JStr ''simulated_error''),
        SetAttribute CurrentSpan ''error.message'' (JStr ''Simulated error for testing'')]"

definition call_receiver_open :: "config \<Rightarrow> json \<Rightarrow> event list" where
  "call_receiver_open cfg request_id =
     [StartSpan ''call_receiver'' INTERNAL,
      SetAttribute (Span ''call_receiver'') ''app.tenant.id'' (JStr (TENANT_ID cfg)),
      SetAttribute (Span ''call_receiver'') ''app.request.id'' request_id,
      SetAttribute (Span ''call_receiver'') ''peer.service'' (JStr ''receiver-service'')]"

text \<open>
  \<open>send_message\<close> of \<open>apps/demo-app/sender/app.py\<close>: its events and its outcome, the
  returned envelope or the \<open>HTTPException\<close> it raises.
\<close>

definition send_message :: "config \<Rightarrow> env \<Rightarrow> dict option \<Rightarrow> event list \<times> (exn + json)" where
  "send_message cfg env data =
     (let request_id = request_id_of data
      in if random_draw env < ERROR_RATE cfg then
           (send_received cfg env
              @ simulated_error_events env
              @ [Log LOG_ERROR ''Simulated error occurred''],
            Inl (HTTPException 500 ''Simulated error''))
         else
           (case forward cfg env data request_id of
              (evs, outcome) \<Rightarrow>
                (send_received cfg env
                   @ call_receiver_open cfg request_id
                   @ evs
                   @ [EndSpan ''call_receiver'' (escaped outcome)],
                 outcome)))"

text \<open>
  The HTTP status FastAPI answers with: 200 for a returned envelope, the status of an
  \<open>HTTPException\<close>, 500 for any other exception.
\<close>

fun http_status :: "exn + json \<Rightarrow> int" where
  "http_status (Inr v) = 200"
| "http_status (Inl (HTTPException c d)) = c"
| "http_status (Inl e) = 500"


section \<open>Sender: the older variant\<close>







section \<open>Receiver: \<open>POST /process\<close>\<close>

definition simulate_database_call :: "config \<Rightarrow> env \<Rightarrow> int \<Rightarrow> event list \<times> (exn + json)" where
  "simulate_database_call cfg env duration_ms =
     (let opened =
            [StartSpan ''database_query'' CLIENT,
             SetAttribute (Span ''database_query'') ''db.system'' (JStr ''simulated''),
             SetAttribute (Span ''database_query'') ''db.operation'' (JStr ''select''),
             SetAttribute (Span ''database_query'') ''db.name'' (JStr ''demo_db''),
             SetAttribute (Span ''database_query'') ''app.tenant.id'' (JStr (TENANT_ID cfg)),
             Sleep (real_of_int duration_ms / 1000)]
      in case db_fault env of
           Some e \<Rightarrow> (opened @ [EndSpan ''database_query'' (Some e)], Inl e)
         | None \<Rightarrow>
             (opened
                @ [RandInt 1 10,
                   SetAttribute (Span ''database_query'') ''app.db.records.count''
                     (JInt (randint env)),
                   Log DEBUG ''Database query completed'',
                   EndSpan ''database_query'' None],
              Inr (JObj [(''records'', JInt (randint env)), (''status'', JStr ''success'')])))"

text \<open>The statements of \<open>process_request\<close> up to and including \<open>random.random()\<close>.\<close>

definition process_received :: "config \<Rightarrow> env \<Rightarrow> json \<Rightarrow> json \<Rightarrow> json \<Rightarrow> event list" where
  "process_received cfg env request_id sender tenant_id =
     on_current_span env [SetAttribute CurrentSpan ''app.endpoint.type'' (JStr ''api'')]
     @ on_current_span env
         [SetAttribute CurrentSpan ''app.tenant.id'' tenant_id,
          SetAttribute CurrentSpan ''app.request.id'' request_id,
          SetAttribute CurrentSpan ''app.sender.service'' sender]
     @ [Log INFO ''Received request for processing'']
     @ latency_events cfg
     @ [RandomDraw]"

text \<open>
  The \<open>with\<close> block of the \<open>process_data\<close> span. The returned envelope is \<open>result\<close>.
\<close>

definition process_data ::
  "config \<Rightarrow> env \<Rightarrow> json \<Rightarrow> json \<Rightarrow> json \<Rightarrow> event list \<times> (exn + json)"
where
  "process_data cfg env request_id sender tenant_id =
     (let opened =
            [StartSpan ''process_data'' INTERNAL,
             SetAttribute (Span ''process_data'') ''app.request.id'' request_id,
             SetAttribute (Span ''process_data'') ''app.tenant.id'' tenant_id,
             SetAttribute (Span ''process_data'') ''app.sender.service'' sender]
      in case simulate_database_call cfg env (PROCESSING_TIME_MS cfg) of
           (db_events, Inl e) \<Rightarrow>
             (opened @ db_events @ [EndSpan ''process_data'' (Some e)], Inl e)
         | (db_events, Inr db_result) \<Rightarrow>
             (let processing_duration = end_time env - start_time env
              in (opened @ db_events
                    @ [Sleep (1 / 100),
                       SetAttribute (Span ''process_data'') ''app.processing.success''
                         (JBool True),
                       SetAttribute (Span ''process_data'') ''app.processing.duration_seconds''
                         (JFloat processing_duration),
                       SetStatus (Span ''process_data'') OK None]
                    @ on_current_span env [SetStatus CurrentSpan OK None]
                    @ [Log INFO ''Request processed successfully'',
                       EndSpan ''process_data'' None],
                  Inr (JObj [(''status'', JStr ''processed''),
                             (''request_id'', request_id),
                             (''tenant_id'', tenant_id),
                             (''sender'', sender),
                             (''receiver'', JStr (SERVICE_NAME cfg)),
                             (''database_result'', db_result),
                             (''processing_time_seconds'', JFloat processing_duration)]))))"

text \<open>The two \<open>except\<close> clauses of \<open>process_request\<close>.\<close>

fun process_except :: "env \<Rightarrow> exn \<Rightarrow> event list \<times> exn" where
  "process_except env (HTTPException c d) = ([], HTTPException c d)"
| "process_except env e =
     (on_current_span env
        [RecordException CurrentSpan e,
         SetStatus CurrentSpan ERROR (Some (exn_str e))]
      @ [Log LOG_ERROR ''Unexpected error during processing''],
      HTTPException 500 (''Processing error: '' @ exn_str e))"

text \<open>\<open>process_request\<close> of \<open>apps/demo-app/receiver/app.py\<close>.\<close>

definition process_request :: "config \<Rightarrow> env \<Rightarrow> dict \<Rightarrow> event list \<times> (exn + json)" where
  "process_request cfg env data =
     (let request_id = dict_get data ''request_id'' (JStr ''unknown'');
          sender = dict_get data ''sender'' (JStr ''unknown'');
          tenant_id = dict_get data ''tenant_id'' (JStr (TENANT_ID cfg));
          received = process_received cfg env request_id sender tenant_id
      in if random_draw env < ERROR_RATE cfg then
           (received
              @ simulated_error_events env
              @ [Log LOG_ERROR ''Simulated error occurred during processing''],
            Inl (HTTPException 500 ''Simulated processing error''))
         else
           (case process_data cfg env request_id sender tenant_id of
              (evs, Inl e) \<Rightarrow>
                (received @ evs @ fst (process_except env e), Inl (snd (process_except env e)))
            | (evs, Inr result) \<Rightarrow> (received @ evs, Inr result)))"

section \<open>Receiver: the older variant\<close>





section \<open>Reading a trace of events\<close>

text \<open>
  The status of a span after a trace. \<open>Span.set_status\<close> of the OpenTelemetry SDK keeps a
  status that is already \<open>OK\<close> and ignores \<open>UNSET\<close>; an exception that escapes the \<open>with\<close>
  block of a span sets it to \<open>ERROR\<close> through the same call.
\<close>

fun status_updates :: "span_ref \<Rightarrow> event \<Rightarrow> span_status_code list" where
  "status_updates r (SetStatus r' c m) = (if r' = r then [c] else [])"
| "status_updates r (EndSpan n (Some e)) = (if r = Span n then [ERROR] else [])"
| "status_updates r ev = []"

definition set_status :: "span_status_code \<Rightarrow> span_status_code \<Rightarrow> span_status_code" where
  "set_status cur new = (if cur = OK \<or> new = UNSET then cur else new)"

definition span_status :: "span_ref \<Rightarrow> event list \<Rightarrow> span_status_code" where
  "span_status r evs = foldl set_status UNSET (concat (map (status_updates r) evs))"

text \<open>The \<open>set_status\<close> calls the code makes on a span, with their descriptions.\<close>

fun status_call :: "span_ref \<Rightarrow> event \<Rightarrow> (span_status_code \<times> string option) list" where
  "status_call r (SetStatus r' c m) = (if r' = r then [(c, m)] else [])"
| "status_call r ev = []"

definition status_calls :: "span_ref \<Rightarrow> event list \<Rightarrow> (span_status_code \<times> string option) list"
where
  "status_calls r evs = concat (map (status_call r) evs)"

text \<open>The exceptions passed to \<open>record_exception\<close> on a span.\<close>

fun recorded :: "span_ref \<Rightarrow> event \<Rightarrow> exn list" where
  "recorded r (RecordException r' e) = (if r' = r then [e] else [])"
| "recorded r ev = []"

definition recorded_exceptions :: "span_ref \<Rightarrow> event list \<Rightarrow> exn list" where
  "recorded_exceptions r evs = concat (map (recorded r) evs)"

text \<open>The values the code sets for an attribute of a span, in order.\<close>

fun attribute_call :: "span_ref \<Rightarrow> string \<Rightarrow> event \<Rightarrow> json list" where
  "attribute_call r k (SetAttribute r' k' v) = (if r' = r \<and> k' = k then [v] else [])"
| "attribute_call r k ev = []"

definition attribute_calls :: "span_ref \<Rightarrow> string \<Rightarrow> event list \<Rightarrow> json list" where
  "attribute_calls r k evs = concat (map (attribute_call r k) evs)"

text \<open>Outbound calls to the receiver.\<close>

fun is_post :: "event \<Rightarrow> bool" where
  "is_post (Post url p t) = True"
| "is_post ev = False"

text \<open>
  Events that serialise a payload: an explicit \<open>json.dumps\<close>, and \<open>client.post\<close> with
  \<open>json=payload\<close>, which encodes the payload as the request body.
\<close>

fun serialises :: "json \<Rightarrow> event \<Rightarrow> bool" where
  "serialises p (JsonDumps q) = (q = p)"
| "serialises p (Post url q t) = (q = p)"
| "serialises p ev = False"

text \<open>
  The order of the artificial delay and of the error-rate draw in a handler's trace: the
  delay is the block of the \<open>artificial_latency\<close> span, the error check starts with
  \<open>random.random()\<close>.
\<close>

datatype phase = LatencyDelay | ErrorCheck

fun phase_of :: "event \<Rightarrow> phase list" where
  "phase_of (StartSpan n k) = (if n = ''artificial_latency'' then [LatencyDelay] else [])"
| "phase_of RandomDraw = [ErrorCheck]"
| "phase_of ev = []"

definition phase_order :: "event list \<Rightarrow> phase list" where
  "phase_order evs = concat (map phase_of evs)"

text \<open>
  The value of an up-down counter per attribute set, after a trace; \<open>touches\<close> tells
  whether an event is a measurement on a given instrument.
\<close>

fun touches :: "instrument \<Rightarrow> event \<Rightarrow> bool" where
  "touches i (Add j d attrs) = (j = i)"
| "touches i (Record j v attrs) = (j = i)"
| "touches i ev = False"

fun gauge_step :: "instrument \<Rightarrow> (dict \<Rightarrow> int) \<Rightarrow> event \<Rightarrow> (dict \<Rightarrow> int)" where
  "gauge_step i g (Add j d attrs) = (if j = i then g(attrs := g attrs + d) else g)"
| "gauge_step i g ev = g"

definition gauge_after :: "instrument \<Rightarrow> (dict \<Rightarrow> int) \<Rightarrow> event list \<Rightarrow> (dict \<Rightarrow> int)" where
  "gauge_after i g evs = foldl (gauge_step i) g evs"


section \<open>Concrete requests\<close>

text \<open>
  A configuration, a request environment and their variations, on which the theorems
  below are instantiated.
\<close>

definition example_config :: config where
  "example_config =
     \<lparr>SERVICE_NAME = ''sender-service'', TENANT_ID = ''default'',
      RECEIVER_SERVICE_URL = ''http://receiver-service:8000'',
      ERROR_RATE = 1 / 2, LATENCY_MS = 200, PROCESSING_TIME_MS = 100\<rparr>"

definition receiver_config :: config where
  "receiver_config = example_config\<lparr>SERVICE_NAME := ''receiver-service''\<rparr>"

definition example_response :: httpx_response where
  "example_response =
     \<lparr>hx_status_code = 200, hx_content = ''{}'', hx_status_error = [],
      hx_json = Inr (JObj [])\<rparr>"

definition malformed_response :: httpx_response where
  "malformed_response =
     \<lparr>hx_status_code = 200, hx_content = ''<html>'', hx_status_error = [],
      hx_json = Inl (ValueError ''Expecting value'')\<rparr>"

text \<open>
  A response with status 200 whose body is 100000 opening brackets: \<open>json.loads\<close> raises
  \<open>RecursionError\<close>, which is not a \<open>ValueError\<close>.
\<close>

definition deep_response :: httpx_response where
  "deep_response =
     \<lparr>hx_status_code = 200, hx_content = replicate 100000 (CHR ''[''), hx_status_error = [],
      hx_json = Inl (OtherException ''maximum recursion depth exceeded'')\<rparr>"

definition failed_response :: httpx_response where
  "failed_response =
     \<lparr>hx_status_code = 503, hx_content = [], hx_status_error = ''Server error 503'',
      hx_json = Inl (ValueError ''Expecting value'')\<rparr>"

definition example_env :: env where
  "example_env =
     \<lparr>current_span = True, random_draw = 3 / 4,
      receiver_url =
        \<lparr>pu_hostname = Some ''receiver-service'', pu_port = Inr (Some 8000),
         pu_scheme = ''http''\<rparr>,
      json_dumps_size = (\<lambda>p. 96),
      post_result = Inr example_response,
      start_time = 0, end_time = 1, later_time = 2, client_start_time = 0, client_end_time = 1 / 2,
      randint = 7, db_fault = None\<rparr>"

definition example_request :: request where
  "example_request =
     \<lparr>url_hostname = Inr (Some ''sender-service''), url_port = Inr (Some 8000),
      url_scheme = ''http'', http_method = ''POST'', url_path = ''/send'',
      content_length = Some ''2''\<rparr>"

text \<open>The same request with the header \<open>Host: sender-service:99999\<close>.\<close>

definition malformed_host_request :: request where
  "malformed_host_request =
     example_request\<lparr>url_port := Inl ''Port out of range 0-65535''\<rparr>"

definition example_py_int :: "string \<Rightarrow> int option" where
  "example_py_int s = (if s = ''2'' then Some 2 else None)"

text \<open>
  The events of \<open>send_message\<close> when the simulated error is raised, and what \<open>call_next\<close>
  is then.
\<close>

definition example_handler_events :: "event list" where
  "example_handler_events =
     fst (send_message (example_config\<lparr>ERROR_RATE := 1\<rparr>) example_env None)"

definition example_call_next :: "event list \<times> (exn + response)" where
  "example_call_next =
     (example_handler_events, Inl (HTTPException 500 ''Simulated error''))"

definition example_ok_response :: response where
  "example_ok_response = \<lparr>status_code = 200, body = None, content = None\<rparr>"

section \<open>Lemmas on traces\<close>

lemmas example_defs =
  example_config_def example_env_def example_response_def malformed_response_def
  failed_response_def example_request_def example_call_next_def
  example_handler_events_def receiver_config_def example_ok_response_def
  deep_response_def malformed_host_request_def

lemma latency_status_call: "concat (map (status_call r) (latency_events cfg)) = []"
  by (auto simp: latency_events_def)

lemma latency_status_updates: "concat (map (status_updates r) (latency_events cfg)) = []"
  by (auto simp: latency_events_def)

lemma latency_recorded: "concat (map (recorded r) (latency_events cfg)) = []"
  by (auto simp: latency_events_def)

lemma latency_is_post: "filter is_post (latency_events cfg) = []"
  by (auto simp: latency_events_def)

lemma latency_serialises: "filter (serialises p) (latency_events cfg) = []"
  by (auto simp: latency_events_def)

lemma latency_touches: "filter (touches i) (latency_events cfg) = []"
  by (auto simp: latency_events_def)

lemma latency_phase:
  "concat (map phase_of (latency_events cfg))
     = (if LATENCY_MS cfg > 0 then [LatencyDelay] else [])"
  by (auto simp: latency_events_def)

lemma size_record_status_call: "concat (map (status_call r) (size_record i sz attrs)) = []"
  by (auto simp: size_record_def split: option.splits)

lemma size_record_status_updates:
  "concat (map (status_updates r) (size_record i sz attrs)) = []"
  by (auto simp: size_record_def split: option.splits)

lemma size_record_recorded: "concat (map (recorded r) (size_record i sz attrs)) = []"
  by (auto simp: size_record_def split: option.splits)

lemma size_record_is_post: "filter is_post (size_record i sz attrs) = []"
  by (auto simp: size_record_def split: option.splits)

lemma size_record_serialises: "filter (serialises p) (size_record i sz attrs) = []"
  by (auto simp: size_record_def split: option.splits)

lemma size_record_phase: "concat (map phase_of (size_record i sz attrs)) = []"
  by (auto simp: size_record_def split: option.splits)

lemma size_record_touches: "i \<noteq> j \<Longrightarrow> filter (touches i) (size_record j sz attrs) = []"
  by (auto simp: size_record_def split: option.splits)

lemma on_current_span_concat_map:
  "concat (map f (on_current_span env evs))
     = (if current_span env then concat (map f evs) else [])"
  by (simp add: on_current_span_def)

lemma on_current_span_filter:
  "filter P (on_current_span env evs) = (if current_span env then filter P evs else [])"
  by (simp add: on_current_span_def)

lemmas quiet_events =
  on_current_span_concat_map on_current_span_filter
  latency_status_call latency_status_updates latency_recorded latency_is_post
  latency_serialises latency_phase latency_touches
  size_record_status_call size_record_status_updates size_record_recorded
  size_record_is_post size_record_serialises size_record_phase

lemmas sender_defs =
  send_message_def forward_def client_call_def client_finally_def forward_success_def
  send_received_def simulated_error_events_def call_receiver_open_def json_error_events_def
  escaped_def

lemmas receiver_defs =
  process_request_def process_received_def process_data_def simulate_database_call_def
  simulated_error_events_def

lemmas reading_defs =
  span_status_def status_calls_def recorded_exceptions_def set_status_def phase_order_def

text \<open>The \<open>except\<close> clause around \<open>response.json()\<close> only touches the span and the log.\<close>

lemma json_except_posts: "filter is_post (fst (json_except e)) = []"
  by (cases e) (simp_all add: json_error_events_def)

lemma json_except_serialises: "filter (serialises p) (fst (json_except e)) = []"
  by (cases e) (simp_all add: json_error_events_def)

lemma json_except_touches: "filter (touches i) (fst (json_except e)) = []"
  by (cases e) (simp_all add: json_error_events_def)


text \<open>
  The outbound call is issued exactly when the simulated error does not fire and the
  port of the receiver URL can be read.
\<close>

lemma post_issued_iff:
  "filter is_post (fst (send_message cfg env data)) \<noteq> [] \<longleftrightarrow>
     \<not> random_draw env < ERROR_RATE cfg \<and> (\<exists>port. pu_port (receiver_url env) = Inr port)"
  apply (cases "pu_port (receiver_url env)")
   apply (auto simp: sender_defs quiet_events json_except_posts Let_def
      split: prod.splits sum.splits if_splits)
  done

text \<open>No handler measures on the instruments of the middleware.\<close>

lemma forward_except_touches:
  "i \<in> {http_server_active_requests, http_server_request_duration}
     \<Longrightarrow> filter (touches i) (fst (forward_except e)) = []"
  by (cases e) auto

lemma send_message_leaves_server_metrics:
  "i \<in> {http_server_active_requests, http_server_request_duration}
     \<Longrightarrow> filter (touches i) (fst (send_message cfg env data)) = []"
  by (auto simp: sender_defs quiet_events size_record_touches forward_except_touches
      json_except_touches Let_def split: prod.splits sum.splits)

lemma process_except_touches: "filter (touches i) (fst (process_except env e)) = []"
  by (cases e) (auto simp: quiet_events)

lemma process_request_leaves_metrics:
  "filter (touches i) (fst (process_request cfg env pdata)) = []"
  by (auto simp: receiver_defs quiet_events process_except_touches Let_def
      split: prod.splits sum.splits option.splits)

subsection \<open>Up-down counters\<close>

lemma gauge_step_untouched: "\<not> touches i e \<Longrightarrow> gauge_step i g e = g"
  by (cases e) auto

lemma gauge_after_untouched:
  "\<forall>e\<in>set evs. \<not> touches i e \<Longrightarrow> gauge_after i g evs = g"
  unfolding gauge_after_def
  by (induction evs arbitrary: g) (simp_all add: gauge_step_untouched)

lemma gauge_after_append:
  "gauge_after i g (xs @ ys) = gauge_after i (gauge_after i g xs) ys"
  by (simp add: gauge_after_def)

lemma gauge_after_Cons:
  "gauge_after i g (x # xs) = gauge_after i (gauge_step i g x) xs"
  by (simp add: gauge_after_def)

lemma gauge_after_Nil: "gauge_after i g [] = g"
  by (simp add: gauge_after_def)

lemma filter_untouched: "\<forall>e\<in>set evs. \<not> touches i e \<Longrightarrow> filter (touches i) evs = []"
  by (induction evs) auto

text \<open>
  Along a trace that increments a counter, runs events that leave it alone, and
  decrements it with the same attributes, the counter is at its initial value or one
  above it.
\<close>

lemma balanced_prefix:
  assumes h: "\<forall>e\<in>set hev. \<not> touches i e"
    and r: "\<forall>e\<in>set rest. \<not> touches i e"
    and p: "prefix p (Add i 1 key # hev @ Add i (- 1) key # rest)"
  shows "gauge_after i g p = g \<or> gauge_after i g p = g(key := g key + 1)"
proof (cases p)
  case Nil
  then show ?thesis by (simp add: gauge_after_Nil)
next
  case (Cons x p')
  with p have x: "x = Add i 1 key" and p': "prefix p' (hev @ Add i (- 1) key # rest)"
    by simp_all
  from p' consider (inside) "prefix p' hev"
    | (beyond) us where "p' = hev @ us" "prefix us (Add i (- 1) key # rest)"
    by (auto simp: prefix_append)
  then show ?thesis
  proof cases
    case inside
    then have "\<forall>e\<in>set p'. \<not> touches i e"
      using h by (auto dest: set_mono_prefix)
    then show ?thesis
      by (simp add: Cons x gauge_after_Cons gauge_after_untouched)
  next
    case beyond
    show ?thesis
    proof (cases us)
      case Nil
      then show ?thesis
        using h beyond by (simp add: Cons x gauge_after_Cons gauge_after_untouched)
    next
      case (Cons y us')
      with beyond have y: "y = Add i (- 1) key" and "prefix us' rest" by simp_all
      then have "\<forall>e\<in>set us'. \<not> touches i e"
        using r by (auto dest: set_mono_prefix)
      then have "gauge_after i g p = g"
        using h by (simp add: \<open>p = x # p'\<close> x beyond Cons y gauge_after_Cons gauge_after_append
            gauge_after_untouched fun_upd_idem_iff)
      then show ?thesis by simp
    qed
  qed
qed

lemma dispatch_trace:
  assumes "url_hostname req = Inr hostname" and "url_port req = Inr port"
  shows "fst (dispatch cfg py_int t0 t1 req call_next) =
     Add http_server_active_requests 1 (active_request_attributes cfg req hostname port)
       # fst call_next
       @ Add http_server_active_requests (- 1) (active_request_attributes cfg req hostname port)
       # tl (dispatch_finally cfg py_int t0 t1 req hostname port (snd call_next))"
  using assms by (simp add: dispatch_def dispatch_entry_def dispatch_finally_def Let_def)

lemma dispatch_finally_tl_untouched:
  "\<forall>e\<in>set (tl (dispatch_finally cfg py_int t0 t1 req hostname port outcome)).
     \<not> touches http_server_active_requests e"
  by (auto simp: dispatch_finally_def Let_def size_record_def split: option.splits)

text \<open>
  A request whose hostname or port cannot be read leaves \<open>dispatch\<close> with the
  \<open>ValueError\<close>, before any measurement and without running the handler.
\<close>

lemma dispatch_unreadable:
  assumes "(\<exists>msg. url_hostname req = Inl msg) \<or> (\<exists>msg. url_port req = Inl msg)"
  shows "fst (dispatch cfg py_int t0 t1 req call_next) = []
       \<and> (\<exists>msg. snd (dispatch cfg py_int t0 t1 req call_next) = Inl (ValueError msg))"
  using assms by (auto simp: dispatch_def split: sum.splits)

section \<open>The telemetry middleware\<close>

text \<open>
  C4, as stated, fails for a request whose \<open>Host\<close> header carries a port out of range:
  reading \<open>request.url.port\<close> raises before the increment, so the gauge is neither
  incremented nor decremented for that request, and the wrapped handler is not run.
\<close>

theorem unreadable_url_counterexample:
  "fst (dispatch example_config example_py_int 0 1 malformed_host_request example_call_next)
     = []
   \<and> filter (touches http_server_active_requests)
       (fst (dispatch example_config example_py_int 0 1 malformed_host_request
          example_call_next)) = []
   \<and> snd (dispatch example_config example_py_int 0 1 malformed_host_request example_call_next)
     = Inl (ValueError ''Port out of range 0-65535'')"
  by (simp add: dispatch_def malformed_host_request_def example_request_def)

text \<open>
  C4, amended. For every request whose URL hostname and port \<open>dispatch\<close> can read,
  whatever the wrapped handler does (return or raise), provided the handler itself
  does not measure on the active-request gauge (no handler of the source does): the
  attribute set has exactly the keys \<open>server.address\<close>, \<open>server.port\<close>,
  \<open>http.request.method\<close>, \<open>url.scheme\<close>, \<open>http.route\<close>; the gauge is incremented by one
  before the handler runs and decremented by one after it, with that same attribute
  set, and touched at no other point. A request whose hostname or port cannot be read
  raises before the increment and makes no measurement on the gauge. Consequently, for
  every request, readable or not, the gauge has after the request its value from before
  the request for every attribute set, and at every point of the request a gauge value
  that was non-negative before the request is non-negative.
\<close>

theorem active_requests_balanced:
  assumes handler: "filter (touches http_server_active_requests) (fst call_next) = []"
  shows "(\<forall>hostname port. url_hostname req = Inr hostname \<longrightarrow> url_port req = Inr port \<longrightarrow>
            map fst (active_request_attributes cfg req hostname port) =
              [''server.address'', ''server.port'', ''http.request.method'', ''url.scheme'',
               ''http.route'']
          \<and> (\<exists>rest. fst (dispatch cfg py_int t0 t1 req call_next) =
                Add http_server_active_requests 1
                    (active_request_attributes cfg req hostname port)
                  # fst call_next
                  @ Add http_server_active_requests (- 1)
                      (active_request_attributes cfg req hostname port)
                  # rest)
          \<and> filter (touches http_server_active_requests)
                (fst (dispatch cfg py_int t0 t1 req call_next)) =
              [Add http_server_active_requests 1
                 (active_request_attributes cfg req hostname port),
               Add http_server_active_requests (- 1)
                 (active_request_attributes cfg req hostname port)])
       \<and> ((\<exists>msg. url_hostname req = Inl msg) \<or> (\<exists>msg. url_port req = Inl msg) \<longrightarrow>
            filter (touches http_server_active_requests)
              (fst (dispatch cfg py_int t0 t1 req call_next)) = [])
       \<and> gauge_after http_server_active_requests g
             (fst (dispatch cfg py_int t0 t1 req call_next)) = g
       \<and> (\<forall>p k. prefix p (fst (dispatch cfg py_int t0 t1 req call_next)) \<longrightarrow> 0 \<le> g k
             \<longrightarrow> 0 \<le> gauge_after http_server_active_requests g p k)"
proof -
  let ?i = http_server_active_requests
  let ?tr = "fst (dispatch cfg py_int t0 t1 req call_next)"
  have quiet: "\<forall>e\<in>set (fst call_next). \<not> touches ?i e"
    using handler by (simp add: filter_empty_conv)
  have readable: "map fst (active_request_attributes cfg req hostname port) =
        [''server.address'', ''server.port'', ''http.request.method'', ''url.scheme'',
         ''http.route'']
      \<and> (\<exists>rest. ?tr =
            Add ?i 1 (active_request_attributes cfg req hostname port) # fst call_next
              @ Add ?i (- 1) (active_request_attributes cfg req hostname port) # rest)
      \<and> filter (touches ?i) ?tr =
          [Add ?i 1 (active_request_attributes cfg req hostname port),
           Add ?i (- 1) (active_request_attributes cfg req hostname port)]
      \<and> gauge_after ?i g ?tr = g
      \<and> (\<forall>p k. prefix p ?tr \<longrightarrow> 0 \<le> g k \<longrightarrow> 0 \<le> gauge_after ?i g p k)"
    if h: "url_hostname req = Inr hostname" and p: "url_port req = Inr port"
    for hostname port
  proof -
    let ?key = "active_request_attributes cfg req hostname port"
    let ?rest = "tl (dispatch_finally cfg py_int t0 t1 req hostname port (snd call_next))"
    have tr: "?tr = Add ?i 1 ?key # fst call_next @ Add ?i (- 1) ?key # ?rest"
      by (rule dispatch_trace[OF h p])
    have rest: "\<forall>e\<in>set ?rest. \<not> touches ?i e"
      by (rule dispatch_finally_tl_untouched)
    have keys: "map fst ?key =
        [''server.address'', ''server.port'', ''http.request.method'', ''url.scheme'',
         ''http.route'']"
      by (simp add: active_request_attributes_def)
    have decomp: "\<exists>r. ?tr = Add ?i 1 ?key # fst call_next @ Add ?i (- 1) ?key # r"
      using tr by blast
    have filt: "filter (touches ?i) ?tr = [Add ?i 1 ?key, Add ?i (- 1) ?key]"
      by (simp only: tr filter.simps filter_append touches.simps if_True refl
          handler filter_untouched[OF rest] append_Nil)
    have whole: "gauge_after ?i g ?tr = g"
      by (simp only: tr gauge_after_Cons gauge_after_append gauge_after_untouched[OF quiet]
          gauge_after_untouched[OF rest]) simp
    have never: "0 \<le> gauge_after ?i g q k" if q: "prefix q ?tr" and k: "0 \<le> g k" for q k
    proof -
      from q have "prefix q (Add ?i 1 ?key # fst call_next @ Add ?i (- 1) ?key # ?rest)"
        by (simp only: tr)
      from balanced_prefix[OF quiet rest this]
      have "gauge_after ?i g q = g \<or> gauge_after ?i g q = g(?key := g ?key + 1)" .
      then show ?thesis using k by auto
    qed
    from keys decomp filt whole never show ?thesis by blast
  qed
  have unreadable: "?tr = []"
    if "(\<exists>msg. url_hostname req = Inl msg) \<or> (\<exists>msg. url_port req = Inl msg)"
    using dispatch_unreadable[OF that] by blast
  have part1: "\<forall>hostname port. url_hostname req = Inr hostname \<longrightarrow> url_port req = Inr port \<longrightarrow>
            map fst (active_request_attributes cfg req hostname port) =
              [''server.address'', ''server.port'', ''http.request.method'', ''url.scheme'',
               ''http.route'']
          \<and> (\<exists>rest. ?tr =
                Add ?i 1 (active_request_attributes cfg req hostname port) # fst call_next
                  @ Add ?i (- 1) (active_request_attributes cfg req hostname port) # rest)
          \<and> filter (touches ?i) ?tr =
              [Add ?i 1 (active_request_attributes cfg req hostname port),
               Add ?i (- 1) (active_request_attributes cfg req hostname port)]"
    using readable by blast
  have part2: "(\<exists>msg. url_hostname req = Inl msg) \<or> (\<exists>msg. url_port req = Inl msg) \<longrightarrow>
      filter (touches ?i) ?tr = []"
    using unreadable by simp
  have part3: "gauge_after ?i g ?tr = g
      \<and> (\<forall>p k. prefix p ?tr \<longrightarrow> 0 \<le> g k \<longrightarrow> 0 \<le> gauge_after ?i g p k)"
  proof (cases "(\<exists>msg. url_hostname req = Inl msg) \<or> (\<exists>msg. url_port req = Inl msg)")
    case True
    then have "?tr = []" by (rule unreadable)
    then show ?thesis by (simp add: gauge_after_Nil)
  next
    case False
    then obtain hostname port where "url_hostname req = Inr hostname"
      and "url_port req = Inr port"
      by (cases "url_hostname req"; cases "url_port req") auto
    from readable[OF this] show ?thesis by blast
  qed
  from part1 part2 part3 show ?thesis by blast
qed

text \<open>
  The theorem at a \<open>POST /send\<close> whose handler raises the simulated error, with every
  gauge at 0 before the request: the gauge is incremented and decremented once, is back
  at 0 afterwards, and is non-negative after the increment; and at the same request
  with a port out of range in its \<open>Host\<close> header, which leaves the gauge alone.
\<close>

theorem active_requests_balanced_witness:
  "filter (touches http_server_active_requests) (fst example_call_next) = []
   \<and> url_hostname example_request = Inr (Some ''sender-service'')
   \<and> url_port example_request = Inr (Some 8000)
   \<and> filter (touches http_server_active_requests)
        (fst (dispatch example_config example_py_int 0 1 example_request example_call_next))
      = [Add http_server_active_requests 1
           (active_request_attributes example_config example_request
              (Some ''sender-service'') (Some 8000)),
         Add http_server_active_requests (- 1)
           (active_request_attributes example_config example_request
              (Some ''sender-service'') (Some 8000))]
   \<and> gauge_after http_server_active_requests (\<lambda>k. 0)
        (fst (dispatch example_config example_py_int 0 1 example_request example_call_next))
      = (\<lambda>k. 0)
   \<and> prefix
        [Add http_server_active_requests 1
           (active_request_attributes example_config example_request
              (Some ''sender-service'') (Some 8000))]
        (fst (dispatch example_config example_py_int 0 1 example_request example_call_next))
   \<and> (0::int) \<le> (\<lambda>k. 0)
        (active_request_attributes example_config example_request
           (Some ''sender-service'') (Some 8000))
   \<and> 0 \<le> gauge_after http_server_active_requests (\<lambda>k. 0)
        [Add http_server_active_requests 1
           (active_request_attributes example_config example_request
              (Some ''sender-service'') (Some 8000))]
        (active_request_attributes example_config example_request
           (Some ''sender-service'') (Some 8000))
   \<and> url_port malformed_host_request = Inl ''Port out of range 0-65535''
   \<and> filter (touches http_server_active_requests)
        (fst (dispatch example_config example_py_int 0 1 malformed_host_request
           example_call_next)) = []"
proof -
  let ?tr = "fst (dispatch example_config example_py_int 0 1 example_request example_call_next)"
  let ?k = "active_request_attributes example_config example_request
      (Some ''sender-service'') (Some 8000)"
  let ?p = "[Add http_server_active_requests 1 ?k]"
  have h: "filter (touches http_server_active_requests) (fst example_call_next) = []"
    by (simp add: example_call_next_def example_handler_events_def
        send_message_leaves_server_metrics)
  have host: "url_hostname example_request = Inr (Some ''sender-service'')"
    by (simp add: example_request_def)
  have port: "url_port example_request = Inr (Some 8000)"
    by (simp add: example_request_def)
  have bad: "url_port malformed_host_request = Inl ''Port out of range 0-65535''"
    by (simp add: malformed_host_request_def)
  note inst = active_requests_balanced[OF h, where req = example_request
      and cfg = example_config and py_int = example_py_int and ?t0.0 = 0 and ?t1.0 = 1
      and g = "\<lambda>k. 0"]
  note inst_bad = active_requests_balanced[OF h, where req = malformed_host_request
      and cfg = example_config and py_int = example_py_int and ?t0.0 = 0 and ?t1.0 = 1
      and g = "\<lambda>k. 0"]
  from inst host port
  have once: "filter (touches http_server_active_requests) ?tr
      = [Add http_server_active_requests 1 ?k, Add http_server_active_requests (- 1) ?k]"
    by blast
  from inst have whole: "gauge_after http_server_active_requests (\<lambda>k. 0) ?tr = (\<lambda>k. 0)"
    by blast
  have pre: "prefix ?p ?tr"
    by (simp add: dispatch_trace[OF host port])
  have zero: "(0::int) \<le> (\<lambda>k. 0) ?k"
    by simp
  from inst pre zero have nonneg: "0 \<le> gauge_after http_server_active_requests (\<lambda>k. 0) ?p ?k"
    by blast
  from inst_bad bad
  have none: "filter (touches http_server_active_requests)
      (fst (dispatch example_config example_py_int 0 1 malformed_host_request
         example_call_next)) = []"
    by blast
  from h host port once whole pre zero nonneg bad none show ?thesis by blast
qed

text \<open>
  C5. For every request through \<open>dispatch\<close> that reaches the wrapped handler (its URL
  hostname and port can be read; otherwise \<open>dispatch\<close> raises before \<open>call_next\<close>),
  provided the handler itself does not record on the duration histogram (no handler of
  the source does), the trace has exactly one record on \<open>http.server.request.duration\<close>,
  and its \<open>http.response.status_code\<close> attribute is: the status of the response when the
  continuation returns one; the status of the \<open>HTTPException\<close> when it raises one; 500
  when it raises any other exception. The response or exception of the continuation
  passes through unchanged.
\<close>

theorem duration_recorded_once:
  assumes handler: "filter (touches http_server_request_duration) hev = []"
    and host: "url_hostname req = Inr hostname"
    and port: "url_port req = Inr port"
  shows "filter (touches http_server_request_duration)
            (fst (dispatch cfg py_int t0 t1 req (hev, Inr resp)))
           = [Record http_server_request_duration (t1 - t0)
                (duration_attributes cfg req hostname port (status_code resp))]
       \<and> filter (touches http_server_request_duration)
            (fst (dispatch cfg py_int t0 t1 req (hev, Inl (HTTPException c d))))
           = [Record http_server_request_duration (t1 - t0)
                (duration_attributes cfg req hostname port c)]
       \<and> filter (touches http_server_request_duration)
            (fst (dispatch cfg py_int t0 t1 req (hev, Inl (HTTPError m))))
           = [Record http_server_request_duration (t1 - t0)
                (duration_attributes cfg req hostname port 500)]
       \<and> filter (touches http_server_request_duration)
            (fst (dispatch cfg py_int t0 t1 req (hev, Inl (ValueError m))))
           = [Record http_server_request_duration (t1 - t0)
                (duration_attributes cfg req hostname port 500)]
       \<and> filter (touches http_server_request_duration)
            (fst (dispatch cfg py_int t0 t1 req (hev, Inl (OtherException m))))
           = [Record http_server_request_duration (t1 - t0)
                (duration_attributes cfg req hostname port 500)]
       \<and> map_of (duration_attributes cfg req hostname port s) ''http.response.status_code''
           = Some (JInt s)
       \<and> snd (dispatch cfg py_int t0 t1 req (hev, outcome)) = outcome"
proof -
  let ?i = http_server_request_duration
  have once: "filter (touches ?i) (fst (dispatch cfg py_int t0 t1 req (hev, r)))
      = [Record ?i (t1 - t0) (duration_attributes cfg req hostname port (captured_status r))]"
    for r
    by (simp add: dispatch_def dispatch_entry_def dispatch_finally_def Let_def
        handler host port size_record_touches)
  have attr: "map_of (duration_attributes cfg req hostname port s) ''http.response.status_code''
      = Some (JInt s)"
    by (simp add: duration_attributes_def)
  have pass: "snd (dispatch cfg py_int t0 t1 req (hev, outcome)) = outcome"
    by (simp add: dispatch_def host port)
  from once[of "Inr resp"] once[of "Inl (HTTPException c d)"] once[of "Inl (HTTPError m)"]
    once[of "Inl (ValueError m)"] once[of "Inl (OtherException m)"] attr pass
  show ?thesis by simp
qed

text \<open>
  The theorem at a \<open>POST /send\<close> whose handler raises \<open>HTTPException(500)\<close>, and at the
  same events followed by a response with status 200: one duration record each, with
  status code 500 and 200.
\<close>

theorem duration_recorded_once_witness:
  "filter (touches http_server_request_duration) example_handler_events = []
   \<and> url_hostname example_request = Inr (Some ''sender-service'')
   \<and> url_port example_request = Inr (Some 8000)
   \<and> filter (touches http_server_request_duration)
        (fst (dispatch example_config example_py_int 0 1 example_request
           (example_handler_events, Inl (HTTPException 500 ''Simulated error''))))
      = [Record http_server_request_duration (1 - 0)
           (duration_attributes example_config example_request
              (Some ''sender-service'') (Some 8000) 500)]
   \<and> filter (touches http_server_request_duration)
        (fst (dispatch example_config example_py_int 0 1 example_request
           (example_handler_events, Inr example_ok_response)))
      = [Record http_server_request_duration (1 - 0)
           (duration_attributes example_config example_request
              (Some ''sender-service'') (Some 8000) (status_code example_ok_response))]"
proof -
  have h: "filter (touches http_server_request_duration) example_handler_events = []"
    by (simp add: example_handler_events_def send_message_leaves_server_metrics)
  have host: "url_hostname example_request = Inr (Some ''sender-service'')"
    by (simp add: example_request_def)
  have port: "url_port example_request = Inr (Some 8000)"
    by (simp add: example_request_def)
  note inst = duration_recorded_once[OF h host port, where cfg = example_config
      and py_int = example_py_int and ?t0.0 = 0 and ?t1.0 = 1 and resp = example_ok_response
      and c = 500 and d = "''Simulated error''"]
  from inst
  have a: "filter (touches http_server_request_duration)
        (fst (dispatch example_config example_py_int 0 1 example_request
           (example_handler_events, Inl (HTTPException 500 ''Simulated error''))))
      = [Record http_server_request_duration (1 - 0)
           (duration_attributes example_config example_request
              (Some ''sender-service'') (Some 8000) 500)]"
    by blast
  from inst
  have b: "filter (touches http_server_request_duration)
        (fst (dispatch example_config example_py_int 0 1 example_request
           (example_handler_events, Inr example_ok_response)))
      = [Record http_server_request_duration (1 - 0)
           (duration_attributes example_config example_request
              (Some ''sender-service'') (Some 8000) (status_code example_ok_response))]"
    by blast
  from h host port a b show ?thesis by blast
qed

section \<open>The sender\<close>

text \<open>
  The path the \<open>except (json.JSONDecodeError, ValueError)\<close> clause covers. For every
  \<open>POST /send\<close> in which the outbound call is issued and returns a response with a 2xx
  status on which \<open>response.json()\<close> raises a \<open>ValueError\<close>: the handler raises
  \<open>HTTPException(502)\<close>, so the request resolves with status 502 and not 500; the
  handler's one \<open>record_exception\<close> call on the \<open>call_receiver\<close> span records the decode
  exception; its one \<open>set_status\<close> call on that span sets \<open>ERROR\<close>; and the span's
  status after the request is \<open>ERROR\<close>.
\<close>

lemma value_error_body_is_502:
  assumes issued: "filter is_post (fst (send_message cfg env data)) \<noteq> []"
    and returned: "post_result env = Inr resp"
    and success: "is_success (hx_status_code resp)"
    and malformed: "hx_json resp = Inl (ValueError msg)"
  shows "snd (send_message cfg env data) = Inl (HTTPException 502 (invalid_json_message msg))
       \<and> http_status (snd (send_message cfg env data)) = 502
       \<and> http_status (snd (send_message cfg env data)) \<noteq> 500
       \<and> recorded_exceptions (Span ''call_receiver'') (fst (send_message cfg env data))
           = [ValueError msg]
       \<and> status_calls (Span ''call_receiver'') (fst (send_message cfg env data))
           = [(ERROR, Some (invalid_json_message msg))]
       \<and> span_status (Span ''call_receiver'') (fst (send_message cfg env data)) = ERROR"
proof -
  from issued obtain port where pass: "\<not> random_draw env < ERROR_RATE cfg"
    and port: "pu_port (receiver_url env) = Inr port"
    by (auto simp: post_issued_iff)
  have out: "snd (send_message cfg env data) = Inl (HTTPException 502 (invalid_json_message msg))"
    using pass port returned success malformed by (simp add: sender_defs Let_def)
  have rec: "recorded_exceptions (Span ''call_receiver'') (fst (send_message cfg env data))
      = [ValueError msg]"
    using pass port returned success malformed
    by (simp add: sender_defs reading_defs quiet_events Let_def)
  have calls: "status_calls (Span ''call_receiver'') (fst (send_message cfg env data))
      = [(ERROR, Some (invalid_json_message msg))]"
    using pass port returned success malformed
    by (simp add: sender_defs reading_defs quiet_events Let_def)
  have st: "span_status (Span ''call_receiver'') (fst (send_message cfg env data)) = ERROR"
    using pass port returned success malformed
    by (simp add: sender_defs reading_defs quiet_events Let_def)
  from out rec calls st show ?thesis by simp
qed

text \<open>
  C1. A \<open>POST /send\<close> whose outbound call returns a 2xx status with a body that fails to
  parse as JSON is to be answered with 502, not 500, as the comment above the \<open>except\<close>
  clause also says. The code does not do so for every such body: at a receiver that
  answers 200 with a body nested too deeply, \<open>response.json()\<close> raises
  \<open>RecursionError\<close>, which is no \<open>ValueError\<close>; the \<open>except\<close> clause lets it pass, the
  \<open>except Exception\<close> clause of the outer \<open>try\<close> catches it, and the request resolves with
  status 500 and the detail \<open>"Internal error: ..."\<close>.
\<close>

theorem deep_body_is_500:
  "filter is_post
       (fst (send_message example_config
          (example_env\<lparr>post_result := Inr deep_response\<rparr>) None)) \<noteq> []
   \<and> post_result (example_env\<lparr>post_result := Inr deep_response\<rparr>) = Inr deep_response
   \<and> is_success (hx_status_code deep_response)
   \<and> hx_json deep_response = Inl (OtherException ''maximum recursion depth exceeded'')
   \<and> snd (send_message example_config
          (example_env\<lparr>post_result := Inr deep_response\<rparr>) None)
       = Inl (HTTPException 500 ''Internal error: maximum recursion depth exceeded'')
   \<and> http_status
       (snd (send_message example_config
          (example_env\<lparr>post_result := Inr deep_response\<rparr>) None)) = 500
   \<and> http_status
       (snd (send_message example_config
          (example_env\<lparr>post_result := Inr deep_response\<rparr>) None)) \<noteq> 502"
proof -
  let ?env = "example_env\<lparr>post_result := Inr deep_response\<rparr>"
  have issued: "filter is_post (fst (send_message example_config ?env None)) \<noteq> []"
    by (simp add: post_issued_iff example_defs)
  have returned: "post_result ?env = Inr deep_response"
    by simp
  have success: "is_success (hx_status_code deep_response)"
    by (simp add: is_success_def deep_response_def)
  have raised: "hx_json deep_response = Inl (OtherException ''maximum recursion depth exceeded'')"
    by (simp add: deep_response_def)
  have pass: "\<not> random_draw ?env < ERROR_RATE example_config"
    by (simp add: example_env_def example_config_def)
  have port: "pu_port (receiver_url ?env) = Inr (Some 8000)"
    by (simp add: example_env_def)
  have out: "snd (send_message example_config ?env None)
      = Inl (HTTPException 500 ''Internal error: maximum recursion depth exceeded'')"
    using pass port returned success raised
    by (simp add: send_message_def forward_def client_call_def Let_def)
  from issued returned success raised out show ?thesis by simp
qed

text \<open>
  C2. For every \<open>POST /send\<close> in which the outbound call is issued and either raises an
  \<open>httpx.HTTPError\<close> (connection refused, timeout) or returns a response whose status
  is not 2xx, so that \<open>raise_for_status()\<close> raises one; with \<open>m\<close> the text of that
  exception: the handler's one \<open>record_exception\<close> call on the \<open>call_receiver\<close> span
  records that exception, its one \<open>set_status\<close> call on that span sets \<open>ERROR\<close>, the
  span's status after the request is \<open>ERROR\<close>, and the request resolves with status 502
  and the detail \<open>"Receiver service error: "\<close> followed by \<open>m\<close>.
\<close>

theorem upstream_failure_is_502:
  assumes issued: "filter is_post (fst (send_message cfg env data)) \<noteq> []"
    and failed: "post_result env = Inl (HTTPError m)
       \<or> (\<exists>resp. post_result env = Inr resp \<and> \<not> is_success (hx_status_code resp)
             \<and> m = hx_status_error resp)"
  shows "snd (send_message cfg env data)
           = Inl (HTTPException 502 (''Receiver service error: '' @ m))
       \<and> http_status (snd (send_message cfg env data)) = 502
       \<and> recorded_exceptions (Span ''call_receiver'') (fst (send_message cfg env data))
           = [HTTPError m]
       \<and> status_calls (Span ''call_receiver'') (fst (send_message cfg env data))
           = [(ERROR, Some m)]
       \<and> span_status (Span ''call_receiver'') (fst (send_message cfg env data)) = ERROR"
proof -
  from issued obtain port where pass: "\<not> random_draw env < ERROR_RATE cfg"
    and port: "pu_port (receiver_url env) = Inr port"
    by (auto simp: post_issued_iff)
  from failed show ?thesis
  proof
    assume transport: "post_result env = Inl (HTTPError m)"
    show ?thesis
      using pass port transport
      by (simp add: sender_defs reading_defs quiet_events Let_def)
  next
    assume "\<exists>resp. post_result env = Inr resp \<and> \<not> is_success (hx_status_code resp)
        \<and> m = hx_status_error resp"
    then obtain resp where returned: "post_result env = Inr resp"
      and status: "\<not> is_success (hx_status_code resp)" and m: "m = hx_status_error resp"
      by blast
    show ?thesis
      using pass port returned status m
      by (simp add: sender_defs reading_defs quiet_events Let_def)
  qed
qed

text \<open>
  The theorem at a receiver that refuses the connection, and at a receiver that
  answers 503.
\<close>

theorem upstream_failure_is_502_witness:
  "filter is_post
       (fst (send_message example_config
          (example_env\<lparr>post_result := Inl (HTTPError ''All connection attempts failed'')\<rparr>)
          None)) \<noteq> []
   \<and> post_result
        (example_env\<lparr>post_result := Inl (HTTPError ''All connection attempts failed'')\<rparr>)
       = Inl (HTTPError ''All connection attempts failed'')
   \<and> snd (send_message example_config
          (example_env\<lparr>post_result := Inl (HTTPError ''All connection attempts failed'')\<rparr>)
          None)
       = Inl (HTTPException 502
               (''Receiver service error: '' @ ''All connection attempts failed''))
   \<and> filter is_post
       (fst (send_message example_config
          (example_env\<lparr>post_result := Inr failed_response\<rparr>) None)) \<noteq> []
   \<and> post_result (example_env\<lparr>post_result := Inr failed_response\<rparr>) = Inr failed_response
   \<and> \<not> is_success (hx_status_code failed_response)
   \<and> http_status
       (snd (send_message example_config
          (example_env\<lparr>post_result := Inr failed_response\<rparr>) None)) = 502"
proof -
  let ?refused = "example_env\<lparr>post_result := Inl (HTTPError ''All connection attempts failed'')\<rparr>"
  let ?unavailable = "example_env\<lparr>post_result := Inr failed_response\<rparr>"
  have issued1: "filter is_post (fst (send_message example_config ?refused None)) \<noteq> []"
    by (simp add: post_issued_iff example_defs)
  have raised: "post_result ?refused = Inl (HTTPError ''All connection attempts failed'')"
    by simp
  from upstream_failure_is_502[OF issued1, of "''All connection attempts failed''"] raised
  have c1: "snd (send_message example_config ?refused None)
      = Inl (HTTPException 502
              (''Receiver service error: '' @ ''All connection attempts failed''))"
    by blast
  have issued2: "filter is_post (fst (send_message example_config ?unavailable None)) \<noteq> []"
    by (simp add: post_issued_iff example_defs)
  have returned: "post_result ?unavailable = Inr failed_response"
    by simp
  have status: "\<not> is_success (hx_status_code failed_response)"
    by (simp add: is_success_def failed_response_def)
  from upstream_failure_is_502[OF issued2, of "hx_status_error failed_response"]
    returned status
  have c2: "http_status (snd (send_message example_config ?unavailable None)) = 502"
    by blast
  from issued1 raised c1 issued2 returned status c2 show ?thesis by blast
qed

text \<open>
  C7. When the error rate is 0.0, the receiver URL is well formed, and the outbound call
  returns a 2xx response whose body decodes to \<open>result\<close>: the request resolves with
  status 200, the envelope is \<open>{status, sender, tenant, receiver_response}\<close> with
  \<open>receiver_response\<close> holding \<open>result\<close>, the handler's only \<open>set_status\<close> call on the
  \<open>call_receiver\<close> span sets \<open>OK\<close>, and the span's status after the request is \<open>OK\<close>.
  \<open>random.random()\<close> is at least 0.
\<close>

theorem success_is_200:
  assumes rate: "ERROR_RATE cfg = 0"
    and draw: "0 \<le> random_draw env"
    and port: "pu_port (receiver_url env) = Inr port"
    and returned: "post_result env = Inr resp"
    and success: "is_success (hx_status_code resp)"
    and parsed: "hx_json resp = Inr result"
  shows "snd (send_message cfg env data)
           = Inr (JObj [(''status'', JStr ''success''),
                        (''sender'', JStr (SERVICE_NAME cfg)),
                        (''tenant'', JStr (TENANT_ID cfg)),
                        (''receiver_response'', result)])
       \<and> http_status (snd (send_message cfg env data)) = 200
       \<and> status_calls (Span ''call_receiver'') (fst (send_message cfg env data))
           = [(OK, None)]
       \<and> span_status (Span ''call_receiver'') (fst (send_message cfg env data)) = OK"
proof -
  have pass: "\<not> random_draw env < ERROR_RATE cfg"
    using rate draw by simp
  show ?thesis
    using pass port returned success parsed
    by (simp add: sender_defs reading_defs quiet_events Let_def)
qed

text \<open>The theorem at a receiver that answers 200 with the body \<open>{}\<close>.\<close>

theorem success_is_200_witness:
  "ERROR_RATE (example_config\<lparr>ERROR_RATE := 0\<rparr>) = 0
   \<and> 0 \<le> random_draw example_env
   \<and> pu_port (receiver_url example_env) = Inr (Some 8000)
   \<and> post_result example_env = Inr example_response
   \<and> is_success (hx_status_code example_response)
   \<and> hx_json example_response = Inr (JObj [])
   \<and> http_status (snd (send_message (example_config\<lparr>ERROR_RATE := 0\<rparr>) example_env None))
       = 200
   \<and> span_status (Span ''call_receiver'')
       (fst (send_message (example_config\<lparr>ERROR_RATE := 0\<rparr>) example_env None)) = OK"
proof -
  have rate: "ERROR_RATE (example_config\<lparr>ERROR_RATE := 0\<rparr>) = 0"
    by simp
  have draw: "0 \<le> random_draw example_env"
    by (simp add: example_env_def)
  have port: "pu_port (receiver_url example_env) = Inr (Some 8000)"
    by (simp add: example_env_def)
  have returned: "post_result example_env = Inr example_response"
    by (simp add: example_env_def)
  have success: "is_success (hx_status_code example_response)"
    by (simp add: is_success_def example_response_def)
  have parsed: "hx_json example_response = Inr (JObj [])"
    by (simp add: example_response_def)
  note inst = success_is_200[OF rate draw port returned success parsed, of None]
  from inst
  have "http_status (snd (send_message (example_config\<lparr>ERROR_RATE := 0\<rparr>) example_env None))
      = 200"
    by blast
  moreover from inst
  have "span_status (Span ''call_receiver'')
      (fst (send_message (example_config\<lparr>ERROR_RATE := 0\<rparr>) example_env None)) = OK"
    by blast
  ultimately show ?thesis
    using rate draw port returned success parsed by blast
qed

section \<open>Error injection\<close>

text \<open>
  C3. When the error rate is 1.0 (and \<open>random.random()\<close> is below 1, as it always is),
  with a server span current: \<open>POST /send\<close> resolves with status 500, its handler's only
  \<open>set_status\<close> call on the server span is \<open>ERROR\<close> with the message
  \<open>"Simulated error"\<close>, the span's status is \<open>ERROR\<close>, and no outbound call to the
  receiver is in the trace; \<open>POST /process\<close> resolves with status 500 (detail
  \<open>"Simulated processing error"\<close>), with the same status call and span status.
\<close>

theorem full_error_rate_is_500:
  assumes rate: "ERROR_RATE cfg = 1"
    and draw: "random_draw env < 1"
    and span: "current_span env"
  shows "snd (send_message cfg env data) = Inl (HTTPException 500 ''Simulated error'')
       \<and> http_status (snd (send_message cfg env data)) = 500
       \<and> status_calls CurrentSpan (fst (send_message cfg env data))
           = [(ERROR, Some ''Simulated error'')]
       \<and> span_status CurrentSpan (fst (send_message cfg env data)) = ERROR
       \<and> filter is_post (fst (send_message cfg env data)) = []
       \<and> snd (process_request cfg env pdata)
           = Inl (HTTPException 500 ''Simulated processing error'')
       \<and> http_status (snd (process_request cfg env pdata)) = 500
       \<and> status_calls CurrentSpan (fst (process_request cfg env pdata))
           = [(ERROR, Some ''Simulated error'')]
       \<and> span_status CurrentSpan (fst (process_request cfg env pdata)) = ERROR"
proof -
  have fire: "random_draw env < ERROR_RATE cfg"
    using rate draw by simp
  have s1: "snd (send_message cfg env data) = Inl (HTTPException 500 ''Simulated error'')"
    using fire by (simp add: send_message_def)
  have s2: "status_calls CurrentSpan (fst (send_message cfg env data))
      = [(ERROR, Some ''Simulated error'')]"
    using fire span by (simp add: sender_defs reading_defs quiet_events)
  have s3: "span_status CurrentSpan (fst (send_message cfg env data)) = ERROR"
    using fire span by (simp add: sender_defs reading_defs quiet_events)
  have s4: "filter is_post (fst (send_message cfg env data)) = []"
    using fire post_issued_iff[of cfg env data] by simp
  have r1: "snd (process_request cfg env pdata)
      = Inl (HTTPException 500 ''Simulated processing error'')"
    using fire by (simp add: process_request_def)
  have r2: "status_calls CurrentSpan (fst (process_request cfg env pdata))
      = [(ERROR, Some ''Simulated error'')]"
    using fire span by (simp add: receiver_defs reading_defs quiet_events)
  have r3: "span_status CurrentSpan (fst (process_request cfg env pdata)) = ERROR"
    using fire span by (simp add: receiver_defs reading_defs quiet_events)
  from s1 s2 s3 s4 r1 r2 r3 show ?thesis by simp
qed

text \<open>The theorem at error rate 1 and a draw of 3/4.\<close>

theorem full_error_rate_is_500_witness:
  "ERROR_RATE (example_config\<lparr>ERROR_RATE := 1\<rparr>) = 1
   \<and> random_draw example_env < 1
   \<and> current_span example_env
   \<and> http_status (snd (send_message (example_config\<lparr>ERROR_RATE := 1\<rparr>) example_env None))
       = 500
   \<and> filter is_post (fst (send_message (example_config\<lparr>ERROR_RATE := 1\<rparr>) example_env None))
       = []
   \<and> http_status
        (snd (process_request (example_config\<lparr>ERROR_RATE := 1\<rparr>) example_env
           [(''request_id'', JStr ''r1'')])) = 500"
proof -
  have rate: "ERROR_RATE (example_config\<lparr>ERROR_RATE := 1\<rparr>) = 1"
    by simp
  have draw: "random_draw example_env < 1"
    by (simp add: example_env_def)
  have span: "current_span example_env"
    by (simp add: example_env_def)
  note inst = full_error_rate_is_500[OF rate draw span, of None "[(''request_id'', JStr ''r1'')]"]
  from inst
  have a: "http_status (snd (send_message (example_config\<lparr>ERROR_RATE := 1\<rparr>) example_env None))
      = 500"
    by blast
  from inst
  have b: "filter is_post (fst (send_message (example_config\<lparr>ERROR_RATE := 1\<rparr>) example_env None))
      = []"
    by blast
  from inst
  have c: "http_status
        (snd (process_request (example_config\<lparr>ERROR_RATE := 1\<rparr>) example_env
           [(''request_id'', JStr ''r1'')])) = 500"
    by blast
  from rate draw span a b c show ?thesis by blast
qed

section \<open>The receiver\<close>

text \<open>
  \<open>process_request\<close> returns exactly when the simulated error does not fire and nothing
  is raised while the database call is awaited, and then it returns this envelope.
\<close>

lemma process_request_returns_iff:
  "snd (process_request cfg env pdata) = Inr result \<longleftrightarrow>
     \<not> random_draw env < ERROR_RATE cfg \<and> db_fault env = None
     \<and> result =
         JObj [(''status'', JStr ''processed''),
               (''request_id'', dict_get pdata ''request_id'' (JStr ''unknown'')),
               (''tenant_id'', dict_get pdata ''tenant_id'' (JStr (TENANT_ID cfg))),
               (''sender'', dict_get pdata ''sender'' (JStr ''unknown'')),
               (''receiver'', JStr (SERVICE_NAME cfg)),
               (''database_result'',
                JObj [(''records'', JInt (randint env)), (''status'', JStr ''success'')]),
               (''processing_time_seconds'', JFloat (end_time env - start_time env))]"
  by (auto simp: process_request_def process_data_def simulate_database_call_def Let_def
      split: option.splits)

text \<open>
  C8. For every \<open>POST /process\<close> whose handler returns (the error check passed and
  nothing was raised), with a server span current: the request resolves with status
  200; the result has exactly the fields \<open>status\<close> (\<open>"processed"\<close>), \<open>request_id\<close>,
  \<open>tenant_id\<close>, \<open>sender\<close>, \<open>receiver\<close>, \<open>database_result\<close>, \<open>processing_time_seconds\<close>; and
  the trace that precedes the return marks the \<open>process_data\<close> span and the server span
  \<open>OK\<close>, each by the handler's only \<open>set_status\<close> call on it.
\<close>

theorem processed_envelope:
  assumes returned: "snd (process_request cfg env pdata) = Inr result"
    and span: "current_span env"
  shows "http_status (snd (process_request cfg env pdata)) = 200
       \<and> result =
           JObj [(''status'', JStr ''processed''),
                 (''request_id'', dict_get pdata ''request_id'' (JStr ''unknown'')),
                 (''tenant_id'', dict_get pdata ''tenant_id'' (JStr (TENANT_ID cfg))),
                 (''sender'', dict_get pdata ''sender'' (JStr ''unknown'')),
                 (''receiver'', JStr (SERVICE_NAME cfg)),
                 (''database_result'',
                  JObj [(''records'', JInt (randint env)), (''status'', JStr ''success'')]),
                 (''processing_time_seconds'', JFloat (end_time env - start_time env))]
       \<and> status_calls (Span ''process_data'') (fst (process_request cfg env pdata))
           = [(OK, None)]
       \<and> span_status (Span ''process_data'') (fst (process_request cfg env pdata)) = OK
       \<and> status_calls CurrentSpan (fst (process_request cfg env pdata)) = [(OK, None)]
       \<and> span_status CurrentSpan (fst (process_request cfg env pdata)) = OK"
proof -
  from returned have pass: "\<not> random_draw env < ERROR_RATE cfg"
    and quiet: "db_fault env = None"
    and envelope: "result =
           JObj [(''status'', JStr ''processed''),
                 (''request_id'', dict_get pdata ''request_id'' (JStr ''unknown'')),
                 (''tenant_id'', dict_get pdata ''tenant_id'' (JStr (TENANT_ID cfg))),
                 (''sender'', dict_get pdata ''sender'' (JStr ''unknown'')),
                 (''receiver'', JStr (SERVICE_NAME cfg)),
                 (''database_result'',
                  JObj [(''records'', JInt (randint env)), (''status'', JStr ''success'')]),
                 (''processing_time_seconds'', JFloat (end_time env - start_time env))]"
    by (simp_all add: process_request_returns_iff)
  have ok: "http_status (snd (process_request cfg env pdata)) = 200"
    using returned by simp
  have p1: "status_calls (Span ''process_data'') (fst (process_request cfg env pdata))
      = [(OK, None)]"
    using pass quiet by (simp add: receiver_defs reading_defs quiet_events Let_def)
  have p2: "span_status (Span ''process_data'') (fst (process_request cfg env pdata)) = OK"
    using pass quiet by (simp add: receiver_defs reading_defs quiet_events Let_def)
  have s1: "status_calls CurrentSpan (fst (process_request cfg env pdata)) = [(OK, None)]"
    using pass quiet span by (simp add: receiver_defs reading_defs quiet_events Let_def)
  have s2: "span_status CurrentSpan (fst (process_request cfg env pdata)) = OK"
    using pass quiet span by (simp add: receiver_defs reading_defs quiet_events Let_def)
  from ok envelope p1 p2 s1 s2 show ?thesis by simp
qed

text \<open>The theorem at a request that carries only a \<open>request_id\<close>.\<close>

theorem processed_envelope_witness:
  "snd (process_request receiver_config example_env [(''request_id'', JStr ''r1'')])
     = Inr (JObj [(''status'', JStr ''processed''),
                  (''request_id'', JStr ''r1''),
                  (''tenant_id'', JStr ''default''),
                  (''sender'', JStr ''unknown''),
                  (''receiver'', JStr ''receiver-service''),
                  (''database_result'',
                   JObj [(''records'', JInt 7), (''status'', JStr ''success'')]),
                  (''processing_time_seconds'', JFloat 1)])
   \<and> current_span example_env
   \<and> http_status (snd (process_request receiver_config example_env
        [(''request_id'', JStr ''r1'')])) = 200
   \<and> span_status (Span ''process_data'')
        (fst (process_request receiver_config example_env [(''request_id'', JStr ''r1'')])) = OK
   \<and> span_status CurrentSpan
        (fst (process_request receiver_config example_env [(''request_id'', JStr ''r1'')])) = OK"
proof -
  let ?pdata = "[(''request_id'', JStr ''r1'')]"
  have returned: "snd (process_request receiver_config example_env ?pdata)
     = Inr (JObj [(''status'', JStr ''processed''),
                  (''request_id'', JStr ''r1''),
                  (''tenant_id'', JStr ''default''),
                  (''sender'', JStr ''unknown''),
                  (''receiver'', JStr ''receiver-service''),
                  (''database_result'',
                   JObj [(''records'', JInt 7), (''status'', JStr ''success'')]),
                  (''processing_time_seconds'', JFloat 1)])"
    by (simp add: process_request_returns_iff example_defs dict_get_def)
  have span: "current_span example_env"
    by (simp add: example_env_def)
  note inst = processed_envelope[OF returned span]
  from inst have a: "http_status (snd (process_request receiver_config example_env ?pdata)) = 200"
    by blast
  from inst
  have b: "span_status (Span ''process_data'')
      (fst (process_request receiver_config example_env ?pdata)) = OK"
    by blast
  from inst
  have c: "span_status CurrentSpan (fst (process_request receiver_config example_env ?pdata)) = OK"
    by blast
  from returned span a b c show ?thesis by blast
qed

section \<open>Order of the delay and the error check\<close>
















section \<open>The forwarded payload\<close>

lemma forward_except_posts: "filter is_post (fst (forward_except e)) = []"
  by (cases e) simp_all

lemma forward_except_serialises: "filter (serialises p) (fst (forward_except e)) = []"
  by (cases e) simp_all

text \<open>
  When the outbound call is issued, it is the only one of the request; the payload is
  passed to \<open>json.dumps\<close> once, for the size estimate, and to \<open>client.post\<close> once.
\<close>

lemma send_message_posts:
  assumes issued: "filter is_post (fst (send_message cfg env data)) \<noteq> []"
  shows "filter is_post (fst (send_message cfg env data))
           = [Post (RECEIVER_SERVICE_URL cfg @ ''/process'')
                (payload cfg (request_id_of data) data) 10]"
proof -
  from issued obtain port where pass: "\<not> random_draw env < ERROR_RATE cfg"
    and port: "pu_port (receiver_url env) = Inr port"
    by (auto simp: post_issued_iff)
  show ?thesis
    using pass port
    by (auto simp: sender_defs quiet_events forward_except_posts json_except_posts Let_def
        split: sum.splits prod.splits)
qed

lemma send_message_serialises:
  assumes issued: "filter is_post (fst (send_message cfg env data)) \<noteq> []"
  shows "filter (serialises (payload cfg (request_id_of data) data))
            (fst (send_message cfg env data))
           = [JsonDumps (payload cfg (request_id_of data) data),
              Post (RECEIVER_SERVICE_URL cfg @ ''/process'')
                (payload cfg (request_id_of data) data) 10]"
proof -
  from issued obtain port where pass: "\<not> random_draw env < ERROR_RATE cfg"
    and port: "pu_port (receiver_url env) = Inr port"
    by (auto simp: post_issued_iff)
  show ?thesis
    using pass port
    by (auto simp: sender_defs quiet_events forward_except_serialises
        json_except_serialises Let_def split: sum.splits prod.splits)
qed

text \<open>
  C9, as stated, fails on "serialized once": for a request without a body the payload
  is serialised twice, by \<open>json.dumps(payload)\<close> for the size estimate and by
  \<open>client.post(..., json=payload)\<close> for the request body.
\<close>

theorem serialized_once_counterexample:
  "filter
       (serialises
          (JObj [(''request_id'', JStr ''unknown''), (''tenant_id'', JStr ''default''),
                 (''sender'', JStr ''sender-service''), (''data'', JObj [])]))
       (fst (send_message example_config example_env None))
     = [JsonDumps
          (JObj [(''request_id'', JStr ''unknown''), (''tenant_id'', JStr ''default''),
                 (''sender'', JStr ''sender-service''), (''data'', JObj [])]),
        Post ''http://receiver-service:8000/process''
          (JObj [(''request_id'', JStr ''unknown''), (''tenant_id'', JStr ''default''),
                 (''sender'', JStr ''sender-service''), (''data'', JObj [])]) 10]
   \<and> length
        (filter
           (serialises
              (JObj [(''request_id'', JStr ''unknown''), (''tenant_id'', JStr ''default''),
                     (''sender'', JStr ''sender-service''), (''data'', JObj [])]))
           (fst (send_message example_config example_env None))) \<noteq> 1"
proof -
  have issued: "filter is_post (fst (send_message example_config example_env None)) \<noteq> []"
    by (simp add: post_issued_iff example_defs)
  have p: "payload example_config (request_id_of None) None
      = JObj [(''request_id'', JStr ''unknown''), (''tenant_id'', JStr ''default''),
              (''sender'', JStr ''sender-service''), (''data'', JObj [])]"
    by (simp add: payload_def request_id_of_def data_or_empty_def example_config_def)
  have url: "RECEIVER_SERVICE_URL example_config @ ''/process''
      = ''http://receiver-service:8000/process''"
    by (simp add: example_config_def)
  from send_message_serialises[OF issued] show ?thesis
    by (simp add: p url)
qed

text \<open>
  C9, amended. For every \<open>POST /send\<close> that reaches the forwarding step, exactly one
  outbound call is issued, to \<open>RECEIVER_SERVICE_URL/process\<close>, with a timeout of 10 and
  with the payload \<open>{request_id, tenant_id, sender, data}\<close> and no other field; the
  handler serialises that payload once itself, to estimate the size of the request
  body, and passes it as a structured value to the HTTP client, which serialises it for
  the request.
\<close>

theorem forwarded_payload:
  assumes issued: "filter is_post (fst (send_message cfg env data)) \<noteq> []"
  shows "filter is_post (fst (send_message cfg env data))
           = [Post (RECEIVER_SERVICE_URL cfg @ ''/process'')
                (JObj [(''request_id'', request_id_of data),
                       (''tenant_id'', JStr (TENANT_ID cfg)),
                       (''sender'', JStr (SERVICE_NAME cfg)),
                       (''data'', data_or_empty data)]) 10]
       \<and> filter
            (serialises
               (JObj [(''request_id'', request_id_of data),
                      (''tenant_id'', JStr (TENANT_ID cfg)),
                      (''sender'', JStr (SERVICE_NAME cfg)),
                      (''data'', data_or_empty data)]))
            (fst (send_message cfg env data))
           = [JsonDumps
                (JObj [(''request_id'', request_id_of data),
                       (''tenant_id'', JStr (TENANT_ID cfg)),
                       (''sender'', JStr (SERVICE_NAME cfg)),
                       (''data'', data_or_empty data)]),
              Post (RECEIVER_SERVICE_URL cfg @ ''/process'')
                (JObj [(''request_id'', request_id_of data),
                       (''tenant_id'', JStr (TENANT_ID cfg)),
                       (''sender'', JStr (SERVICE_NAME cfg)),
                       (''data'', data_or_empty data)]) 10]"
  using send_message_posts[OF issued] send_message_serialises[OF issued]
  by (simp add: payload_def)

text \<open>The theorem at a request without a body.\<close>

theorem forwarded_payload_witness:
  "filter is_post (fst (send_message example_config example_env None)) \<noteq> []
   \<and> filter is_post (fst (send_message example_config example_env None))
       = [Post (RECEIVER_SERVICE_URL example_config @ ''/process'')
            (JObj [(''request_id'', request_id_of None),
                   (''tenant_id'', JStr (TENANT_ID example_config)),
                   (''sender'', JStr (SERVICE_NAME example_config)),
                   (''data'', data_or_empty None)]) 10]"
proof -
  have issued: "filter is_post (fst (send_message example_config example_env None)) \<noteq> []"
    by (simp add: post_issued_iff example_defs)
  from forwarded_payload[OF issued] issued show ?thesis
    by blast
qed

section \<open>Missing fields\<close>

lemma latency_attribute_call:
  "concat (map (attribute_call CurrentSpan k) (latency_events cfg)) = []"
  by (auto simp: latency_events_def)

lemma process_except_attribute_call:
  "concat (map (attribute_call CurrentSpan k) (fst (process_except env e))) = []"
  by (cases e) (simp_all add: quiet_events del: concat_eq_Nil_conv Nil_eq_concat_conv)

lemma simulate_database_call_attribute_call:
  "concat (map (attribute_call CurrentSpan k) (fst (simulate_database_call cfg env ms))) = []"
  by (simp add: simulate_database_call_def Let_def del: concat_eq_Nil_conv Nil_eq_concat_conv
      split: option.splits)

lemma process_data_attribute_call:
  "concat (map (attribute_call CurrentSpan k) (fst (process_data cfg env rid sender tenant)))
     = []"
  using simulate_database_call_attribute_call[of k cfg env "PROCESSING_TIME_MS cfg"]
  by (auto simp: process_data_def quiet_events Let_def
      simp del: concat_eq_Nil_conv Nil_eq_concat_conv split: sum.splits prod.splits)

text \<open>
  The values \<open>process_request\<close> sets on the server span for the three fields it reads
  from the body, on every path.
\<close>

lemma process_request_attributes:
  assumes span: "current_span env"
  shows "attribute_calls CurrentSpan ''app.tenant.id'' (fst (process_request cfg env pdata))
           = [dict_get pdata ''tenant_id'' (JStr (TENANT_ID cfg))]
       \<and> attribute_calls CurrentSpan ''app.request.id'' (fst (process_request cfg env pdata))
           = [dict_get pdata ''request_id'' (JStr ''unknown'')]
       \<and> attribute_calls CurrentSpan ''app.sender.service'' (fst (process_request cfg env pdata))
           = [dict_get pdata ''sender'' (JStr ''unknown'')]"
  using span
    process_data_attribute_call[of _ cfg env "dict_get pdata ''request_id'' (JStr ''unknown'')"
      "dict_get pdata ''sender'' (JStr ''unknown'')"
      "dict_get pdata ''tenant_id'' (JStr (TENANT_ID cfg))"]
  by (auto simp: attribute_calls_def process_request_def process_received_def
      simulated_error_events_def quiet_events latency_attribute_call
      process_except_attribute_call Let_def
      simp del: concat_eq_Nil_conv Nil_eq_concat_conv split: prod.splits sum.splits)

text \<open>
  C10, as stated, fails for the sender: a body without a \<open>request_id\<close> field that has
  another field is forwarded as \<open>data\<close>, not replaced by \<open>{}\<close>.
\<close>

theorem missing_request_id_counterexample:
  "map_of [(''message'', JStr ''hi'')] ''request_id'' = None
   \<and> filter is_post
       (fst (send_message example_config example_env (Some [(''message'', JStr ''hi'')])))
     = [Post ''http://receiver-service:8000/process''
          (JObj [(''request_id'', JStr ''unknown''), (''tenant_id'', JStr ''default''),
                 (''sender'', JStr ''sender-service''),
                 (''data'', JObj [(''message'', JStr ''hi'')])]) 10]
   \<and> JObj [(''message'', JStr ''hi'')] \<noteq> JObj []"
proof -
  let ?data = "Some [(''message'', JStr ''hi'')]"
  have issued: "filter is_post (fst (send_message example_config example_env ?data)) \<noteq> []"
    by (simp add: post_issued_iff example_defs)
  have p: "payload example_config (request_id_of ?data) ?data
      = JObj [(''request_id'', JStr ''unknown''), (''tenant_id'', JStr ''default''),
              (''sender'', JStr ''sender-service''),
              (''data'', JObj [(''message'', JStr ''hi'')])]"
    by (simp add: payload_def request_id_of_def data_or_empty_def dict_get_def
        example_config_def)
  have url: "RECEIVER_SERVICE_URL example_config @ ''/process''
      = ''http://receiver-service:8000/process''"
    by (simp add: example_config_def)
  from send_message_posts[OF issued] show ?thesis
    by (simp add: p url)
qed

text \<open>
  C10, amended. A \<open>POST /send\<close> that reaches the forwarding step forwards request id
  \<open>"unknown"\<close> and data \<open>{}\<close> when it has no body, and request id \<open>"unknown"\<close> and the body
  itself as data when it has a body without a \<open>request_id\<close> field (so data is \<open>{}\<close> only
  for an empty body). In \<open>POST /process\<close>, a body without \<open>tenant_id\<close> gets the
  receiver's own configured tenant id, a body without \<open>request_id\<close> or without \<open>sender\<close>
  gets \<open>"unknown"\<close> for it: these are the values set on the server span for every
  request, and the values of the returned envelope when the handler returns.
\<close>

theorem missing_field_defaults:
  assumes issued: "filter is_post (fst (send_message cfg env data)) \<noteq> []"
    and span: "current_span renv"
  shows "(data = None \<longrightarrow>
            filter is_post (fst (send_message cfg env data))
              = [Post (RECEIVER_SERVICE_URL cfg @ ''/process'')
                   (JObj [(''request_id'', JStr ''unknown''),
                          (''tenant_id'', JStr (TENANT_ID cfg)),
                          (''sender'', JStr (SERVICE_NAME cfg)),
                          (''data'', JObj [])]) 10])
       \<and> (\<forall>d. data = Some d \<longrightarrow> map_of d ''request_id'' = None \<longrightarrow>
            filter is_post (fst (send_message cfg env data))
              = [Post (RECEIVER_SERVICE_URL cfg @ ''/process'')
                   (JObj [(''request_id'', JStr ''unknown''),
                          (''tenant_id'', JStr (TENANT_ID cfg)),
                          (''sender'', JStr (SERVICE_NAME cfg)),
                          (''data'', JObj d)]) 10])
       \<and> (map_of pdata ''tenant_id'' = None \<longrightarrow>
            attribute_calls CurrentSpan ''app.tenant.id'' (fst (process_request rcfg renv pdata))
              = [JStr (TENANT_ID rcfg)])
       \<and> (map_of pdata ''request_id'' = None \<longrightarrow>
            attribute_calls CurrentSpan ''app.request.id'' (fst (process_request rcfg renv pdata))
              = [JStr ''unknown''])
       \<and> (map_of pdata ''sender'' = None \<longrightarrow>
            attribute_calls CurrentSpan ''app.sender.service''
                (fst (process_request rcfg renv pdata))
              = [JStr ''unknown''])
       \<and> (\<forall>result. snd (process_request rcfg renv pdata) = Inr result \<longrightarrow>
            (map_of pdata ''tenant_id'' = None \<longrightarrow>
               json_field result ''tenant_id'' = Some (JStr (TENANT_ID rcfg)))
            \<and> (map_of pdata ''request_id'' = None \<longrightarrow>
               json_field result ''request_id'' = Some (JStr ''unknown''))
            \<and> (map_of pdata ''sender'' = None \<longrightarrow>
               json_field result ''sender'' = Some (JStr ''unknown'')))"
proof -
  note posted = send_message_posts[OF issued]
  have no_body: "filter is_post (fst (send_message cfg env data))
      = [Post (RECEIVER_SERVICE_URL cfg @ ''/process'')
           (JObj [(''request_id'', JStr ''unknown''),
                  (''tenant_id'', JStr (TENANT_ID cfg)),
                  (''sender'', JStr (SERVICE_NAME cfg)),
                  (''data'', JObj [])]) 10]"
    if "data = None"
    using posted that by (simp add: payload_def request_id_of_def data_or_empty_def)
  have no_id: "filter is_post (fst (send_message cfg env data))
      = [Post (RECEIVER_SERVICE_URL cfg @ ''/process'')
           (JObj [(''request_id'', JStr ''unknown''),
                  (''tenant_id'', JStr (TENANT_ID cfg)),
                  (''sender'', JStr (SERVICE_NAME cfg)),
                  (''data'', JObj d)]) 10]"
    if "data = Some d" and "map_of d ''request_id'' = None" for d
    using posted that
    by (simp add: payload_def request_id_of_def data_or_empty_def dict_get_def)
  note attrs = process_request_attributes[OF span, of rcfg pdata]
  have a1: "attribute_calls CurrentSpan ''app.tenant.id'' (fst (process_request rcfg renv pdata))
      = [JStr (TENANT_ID rcfg)]"
    if "map_of pdata ''tenant_id'' = None"
    using attrs that by (simp add: dict_get_def)
  have a2: "attribute_calls CurrentSpan ''app.request.id'' (fst (process_request rcfg renv pdata))
      = [JStr ''unknown'']"
    if "map_of pdata ''request_id'' = None"
    using attrs that by (simp add: dict_get_def)
  have a3: "attribute_calls CurrentSpan ''app.sender.service''
        (fst (process_request rcfg renv pdata))
      = [JStr ''unknown'']"
    if "map_of pdata ''sender'' = None"
    using attrs that by (simp add: dict_get_def)
  have envelope: "(map_of pdata ''tenant_id'' = None \<longrightarrow>
               json_field result ''tenant_id'' = Some (JStr (TENANT_ID rcfg)))
            \<and> (map_of pdata ''request_id'' = None \<longrightarrow>
               json_field result ''request_id'' = Some (JStr ''unknown''))
            \<and> (map_of pdata ''sender'' = None \<longrightarrow>
               json_field result ''sender'' = Some (JStr ''unknown''))"
    if "snd (process_request rcfg renv pdata) = Inr result" for result
    using that by (simp add: process_request_returns_iff dict_get_def)
  from no_body no_id a1 a2 a3 envelope show ?thesis by blast
qed

text \<open>
  The theorem at a \<open>POST /send\<close> without a body and at one whose body is
  \<open>{"message": "hi"}\<close>, and at a \<open>POST /process\<close> with the body \<open>{}\<close>.
\<close>

theorem missing_field_defaults_witness:
  "filter is_post (fst (send_message example_config example_env None)) \<noteq> []
   \<and> current_span example_env
   \<and> filter is_post (fst (send_message example_config example_env None))
       = [Post (RECEIVER_SERVICE_URL example_config @ ''/process'')
            (JObj [(''request_id'', JStr ''unknown''),
                   (''tenant_id'', JStr (TENANT_ID example_config)),
                   (''sender'', JStr (SERVICE_NAME example_config)),
                   (''data'', JObj [])]) 10]
   \<and> filter is_post
        (fst (send_message example_config example_env (Some [(''message'', JStr ''hi'')])))
       \<noteq> []
   \<and> map_of [(''message'', JStr ''hi'')] ''request_id'' = None
   \<and> filter is_post
        (fst (send_message example_config example_env (Some [(''message'', JStr ''hi'')])))
       = [Post (RECEIVER_SERVICE_URL example_config @ ''/process'')
            (JObj [(''request_id'', JStr ''unknown''),
                   (''tenant_id'', JStr (TENANT_ID example_config)),
                   (''sender'', JStr (SERVICE_NAME example_config)),
                   (''data'', JObj [(''message'', JStr ''hi'')])]) 10]
   \<and> map_of ([] :: dict) ''tenant_id'' = None
   \<and> attribute_calls CurrentSpan ''app.tenant.id''
        (fst (process_request example_config example_env []))
       = [JStr (TENANT_ID example_config)]"
proof -
  let ?data = "Some [(''message'', JStr ''hi'')]"
  have issued1: "filter is_post (fst (send_message example_config example_env None)) \<noteq> []"
    by (simp add: post_issued_iff example_defs)
  have issued2: "filter is_post (fst (send_message example_config example_env ?data)) \<noteq> []"
    by (simp add: post_issued_iff example_defs)
  have span: "current_span example_env"
    by (simp add: example_env_def)
  have absent: "map_of [(''message'', JStr ''hi'')] ''request_id'' = None"
    by simp
  have empty: "map_of ([] :: dict) ''tenant_id'' = None"
    by simp
  note inst1 = missing_field_defaults[OF issued1 span, of "[]" example_config]
  note inst2 = missing_field_defaults[OF issued2 span, of "[]" example_config]
  from inst1 have c1: "filter is_post (fst (send_message example_config example_env None))
       = [Post (RECEIVER_SERVICE_URL example_config @ ''/process'')
            (JObj [(''request_id'', JStr ''unknown''),
                   (''tenant_id'', JStr (TENANT_ID example_config)),
                   (''sender'', JStr (SERVICE_NAME example_config)),
                   (''data'', JObj [])]) 10]"
    by blast
  from inst2 absent
  have c2: "filter is_post (fst (send_message example_config example_env ?data))
       = [Post (RECEIVER_SERVICE_URL example_config @ ''/process'')
            (JObj [(''request_id'', JStr ''unknown''),
                   (''tenant_id'', JStr (TENANT_ID example_config)),
                   (''sender'', JStr (SERVICE_NAME example_config)),
                   (''data'', JObj [(''message'', JStr ''hi'')])]) 10]"
    by blast
  from inst1 empty
  have c3: "attribute_calls CurrentSpan ''app.tenant.id''
        (fst (process_request example_config example_env []))
       = [JStr (TENANT_ID example_config)]"
    by blast
  from issued1 span c1 issued2 absent c2 empty c3 show ?thesis by blast
qed

end
